theory Spec2Isabelle
  imports Main "HOL-Library.Sublist"
begin

section \<open>Python values and string operations used by \<^verbatim>\<open>blade/backend.py\<close>\<close>

text \<open>
  The module builds the text of a ninja rule file out of configuration values. Strings are
  \<^typ>\<open>string\<close>, lists of strings are \<^typ>\<open>string list\<close>; \<^verbatim>\<open>'%s' % x\<close> on a string is
  concatenation. A configuration item that the source tests for truth
  (\<^verbatim>\<open>if go_home:\<close>) is a \<^typ>\<open>string option\<close>: both \<^verbatim>\<open>None\<close> and the empty string are false in
  Python.
\<close>

definition nl :: string where
  "nl = [CHR 0x0A]"

definition sq :: string where
  "sq = [CHR 0x27]"

definition bs :: string where
  "bs = [CHR 0x5C]"

fun truthy :: "string option \<Rightarrow> bool" where
  "truthy None = False"
| "truthy (Some s) = (s \<noteq> [])"

text \<open>\<^verbatim>\<open>'%s' % v\<close> for a value that is a string or \<^verbatim>\<open>None\<close>.\<close>

fun py_str :: "string option \<Rightarrow> string" where
  "py_str None = ''None''"
| "py_str (Some s) = s"

text \<open>\<^verbatim>\<open>sep.join(xs)\<close>.\<close>

fun str_join :: "string \<Rightarrow> string list \<Rightarrow> string" where
  "str_join sep [] = []"
| "str_join sep [x] = x"
| "str_join sep (x # y # ys) = x @ sep @ str_join sep (y # ys)"

text \<open>
  \<^verbatim>\<open>s.replace(old, new)\<close>: every occurrence of \<^verbatim>\<open>old\<close>, leftmost first, without overlap.
  The counter is the number of characters of a matched occurrence still to be skipped.
\<close>

fun replace_scan :: "string \<Rightarrow> string \<Rightarrow> nat \<Rightarrow> string \<Rightarrow> string" where
  "replace_scan old new k [] = []"
| "replace_scan old new k (c # cs) =
     (if 0 < k then replace_scan old new (k - 1) cs
      else if prefix old (c # cs) then new @ replace_scan old new (length old - 1) cs
      else c # replace_scan old new 0 cs)"

definition str_replace :: "string \<Rightarrow> string \<Rightarrow> string \<Rightarrow> string" where
  "str_replace old new s =
     (if old = [] then concat (map (\<lambda>c. new @ [c]) s) @ new
      else replace_scan old new 0 s)"

text \<open>\<^verbatim>\<open>str(n)\<close> for a Python integer.\<close>

function str_nat :: "nat \<Rightarrow> string" where
  "str_nat n =
     (if n < 10 then [''0123456789'' ! n]
      else str_nat (n div 10) @ [''0123456789'' ! (n mod 10)])"
  by pat_completeness auto
termination
  by (relation "measure id") auto

definition str_int :: "int \<Rightarrow> string" where
  "str_int i = (if i < 0 then CHR ''-'' # str_nat (nat (- i)) else str_nat (nat i))"

text \<open>\<^verbatim>\<open>os.path.join\<close> of \<^verbatim>\<open>posixpath\<close>, for two components and for a list of them.\<close>

definition path_join2 :: "string \<Rightarrow> string \<Rightarrow> string" where
  "path_join2 a b =
     (if prefix ''/'' b then b
      else if a = [] \<or> suffix ''/'' a then a @ b
      else a @ ''/'' @ b)"

definition os_path_join :: "string \<Rightarrow> string list \<Rightarrow> string" where
  "os_path_join a ps = foldl path_join2 a ps"

section \<open>Errors\<close>

text \<open>
  The exceptions that can leave the generator: the \<^verbatim>\<open>OSError\<close> of \<^verbatim>\<open>subprocess.call\<close> when
  the shell cannot be started, the \<^verbatim>\<open>KeyError\<close> of a dictionary lookup, and the fatal exit of
  \<^verbatim>\<open>console.fatal\<close>.
\<close>

datatype error = OSError | KeyError string | Fatal string

text \<open>
  Modelled from the spec: \<^verbatim>\<open>console.fatal\<close> is defined in \<^verbatim>\<open>blade/console.py\<close>, which is not
  among the sources. The spec calls the condition it reports "a hard, immediate fatal error"
  on which "generation aborts (no partial script is written)", so the call never returns and
  the model raises \<^term>\<open>Fatal\<close> with the message.
\<close>

definition console_fatal :: "string \<Rightarrow> error + 'a" where
  "console_fatal msg = Inl (Fatal msg)"

section \<open>Configuration and collaborators\<close>

record options =
  opt_m :: "string option"
  opt_profile :: string
  opt_gprof :: bool
  opt_coverage :: bool

record cc_config =
  cfg_debug_info_levels :: "(string \<times> string list) list"
  cfg_warnings :: "string list"
  cfg_cxx_warnings :: "string list"
  cfg_c_warnings :: "string list"
  cfg_optimize :: "string list"
  cfg_cflags :: "string list"
  cfg_cxxflags :: "string list"
  cfg_cppflags :: "string list"
  cfg_linkflags :: "string list"
  cfg_extra_incs :: "string list"
  cfg_securecc :: string

record proto_library_config =
  cfg_protoc :: string
  cfg_protoc_java :: "string option"
  cfg_protobuf_incs :: "string list"
  cfg_protobuf_java_incs :: "string list"
  cfg_protoc_go_plugin :: "string option"
  cfg_protobuf_go_path :: string
  cfg_protoc_go_subplugins :: "string list"

record go_config =
  cfg_go_home :: "string option"
  cfg_go :: "string option"
  cfg_go_module_enabled :: bool
  cfg_go_module_relpath :: "string option"

text \<open>
  \<^verbatim>\<open>java_config.get('source_version', version)\<close> reads a key that may be missing: the outer
  option of \<open>cfg_source_version\<close> and \<open>cfg_target_version\<close> is the presence of the key.
\<close>

record java_config =
  cfg_java_home :: "string option"
  cfg_version :: "string option"
  cfg_source_version :: "string option option"
  cfg_target_version :: "string option option"

record thrift_config =
  cfg_thrift_incs :: "string list"
  cfg_thrift_gen_params :: string
  cfg_thrift :: string

record config =
  cfg_debug_info_level :: string
  section_cc_config :: cc_config
  cfg_arflags :: "string list"
  cfg_link_jobs :: "int option"
  section_proto_library_config :: proto_library_config
  section_go_config :: go_config
  section_java_config :: java_config
  cfg_jacoco_home :: "string option"
  cfg_one_jar_boot_jar :: string
  cfg_scala_home :: "string option"
  section_thrift_config :: thrift_config

text \<open>The result of \<^verbatim>\<open>subprocess.call(..., shell=True)\<close>: an exit status, or the shell could
  not be started and the call raises.\<close>

datatype probe_outcome = Exited int | SpawnFailed

text \<open>
  Everything the generator reads from outside the module: its constructor's arguments, the
  configuration, and what the collaborators (toolchain, build accelerator, console, source
  control, \<^verbatim>\<open>os.path\<close>, the shell probe) answer.
\<close>

record env =
  build_dir :: string
  blade_path :: string
  options :: options
  config :: config
  get_cc_commands :: "string \<times> string \<times> string"
  filter_cc_flags :: "string list \<Rightarrow> string option \<Rightarrow> string list"
  get_cc :: string
  get_cc_version :: string
  build_jobs_num :: int
  load_scm :: "string \<times> string"
  pipefail_probe :: probe_outcome
  colored :: "string \<Rightarrow> string \<Rightarrow> string"
  sys_executable :: string
  os_path_abspath :: "string \<Rightarrow> string"
  os_path_normpath :: "string \<Rightarrow> string"
  os_path_relpath :: "string \<Rightarrow> string \<Rightarrow> string"
  gen_targets_rules :: "string list"

section \<open>Module-level functions\<close>

definition incs_list_to_string :: "string list \<Rightarrow> string" where
  "incs_list_to_string incs = str_join '' '' (map (\<lambda>path. ''-I '' @ path) incs)"

definition protoc_import_path_option :: "string list \<Rightarrow> string" where
  "protoc_import_path_option incs = str_join '' '' (map (\<lambda>inc. ''-I='' @ inc) incs)"

text \<open>\<^verbatim>\<open>subprocess.call('set -o pipefail 2>/dev/null', shell=True) == 0\<close>, with no handler
  around the call.\<close>

definition shell_support_pipefail :: "probe_outcome \<Rightarrow> error + bool" where
  "shell_support_pipefail outcome =
     (case outcome of
        SpawnFailed \<Rightarrow> Inl OSError
      | Exited status \<Rightarrow> Inr (status = 0))"

section \<open>The rule buffer: \<^verbatim>\<open>_NinjaFileHeaderGenerator\<close>\<close>

record gen =
  rules_buf :: "string list"
  all_rule_names :: "string set"

definition init :: gen where
  "init = \<lparr>rules_buf = [], all_rule_names = {}\<rparr>"

definition add_rule :: "string \<Rightarrow> gen \<Rightarrow> gen" where
  "add_rule rule g = g\<lparr>rules_buf := rules_buf g @ [rule @ nl]\<rparr>"

text \<open>
  \<^verbatim>\<open>list(self.__all_rule_names)\<close>: the elements of the set, each once, in the set's iteration
  order, which Python leaves unspecified. The model is the relation between the state and
  the lists the call may return.
\<close>

definition get_all_rule_names :: "gen \<Rightarrow> string list \<Rightarrow> bool" where
  "get_all_rule_names g names = (distinct names \<and> set names = all_rule_names g)"

text \<open>The keyword arguments of \<^verbatim>\<open>generate_rule\<close>, and their defaults.\<close>

record rule_kw =
  kw_name :: string
  kw_command :: string
  kw_description :: "string option"
  kw_depfile :: "string option"
  kw_generator :: bool
  kw_pool :: "string option"
  kw_restat :: bool
  kw_rspfile :: "string option"
  kw_rspfile_content :: "string option"
  kw_deps :: "string option"

definition rule_kwargs :: "string \<Rightarrow> string \<Rightarrow> string \<Rightarrow> rule_kw" where
  "rule_kwargs name command description =
     \<lparr>kw_name = name, kw_command = command, kw_description = Some description,
      kw_depfile = None, kw_generator = False, kw_pool = None, kw_restat = False,
      kw_rspfile = None, kw_rspfile_content = None, kw_deps = None\<rparr>"

definition generate_rule :: "env \<Rightarrow> rule_kw \<Rightarrow> gen \<Rightarrow> gen" where
  "generate_rule env kw g =
     (let g = g\<lparr>all_rule_names := insert (kw_name kw) (all_rule_names g)\<rparr>;
          g = add_rule (''rule '' @ kw_name kw) g;
          g = add_rule (''  command = '' @ kw_command kw) g;
          g = (if truthy (kw_description kw)
               then add_rule (''  description = ''
                                @ colored env (py_str (kw_description kw)) ''dimpurple'') g
               else g);
          g = (if truthy (kw_depfile kw)
               then add_rule (''  depfile = '' @ py_str (kw_depfile kw)) g else g);
          g = (if kw_generator kw then add_rule ''  generator = 1'' g else g);
          g = (if truthy (kw_pool kw)
               then add_rule (''  pool = '' @ py_str (kw_pool kw)) g else g);
          g = (if kw_restat kw then add_rule ''  restat = 1'' g else g);
          g = (if truthy (kw_rspfile kw)
               then add_rule (''  rspfile = '' @ py_str (kw_rspfile kw)) g else g);
          g = (if truthy (kw_rspfile_content kw)
               then add_rule (''  rspfile_content = '' @ py_str (kw_rspfile_content kw)) g
               else g);
          g = (if truthy (kw_deps kw)
               then add_rule (''  deps = '' @ py_str (kw_deps kw)) g else g)
      in add_rule [] g)"

definition generate_file_header :: "env \<Rightarrow> gen \<Rightarrow> gen" where
  "generate_file_header env g =
     (let g = add_rule (''# build.ninja generated by blade'' @ nl
                        @ ''ninja_required_version = 1.7'' @ nl
                        @ ''builddir = '' @ build_dir env @ nl) g
      in add_rule (''pool heavy_pool'' @ nl @ ''  depth = 1'' @ nl) g)"

definition generate_common_rules :: "env \<Rightarrow> gen \<Rightarrow> gen" where
  "generate_common_rules env g =
     generate_rule env (rule_kwargs ''copy'' ''cp -f ${in} ${out}'' ''COPY ${in} ${out}'') g"

definition get_cc_flags :: "env \<Rightarrow> error + (string list \<times> string list)" where
  "get_cc_flags env =
     (let cc_config = section_cc_config (config env);
          cppflags = (if truthy (opt_m (options env))
                      then [''-m'' @ py_str (opt_m (options env))] else []);
          linkflags = (if truthy (opt_m (options env))
                       then [''-m'' @ py_str (opt_m (options env))] else []);
          cppflags = cppflags @ [''-pipe'', ''-fno-omit-frame-pointer''];
          debug_info_level = cfg_debug_info_level (config env)
      in case map_of (cfg_debug_info_levels cc_config) debug_info_level of
           None \<Rightarrow> Inl (KeyError debug_info_level)
         | Some debug_info_options \<Rightarrow>
             (let cppflags = cppflags @ debug_info_options;
                  cppflags = (if opt_profile (options env) = ''debug''
                              then cppflags @ [''-fstack-protector'']
                              else if opt_profile (options env) = ''release''
                              then cppflags @ [''-DNDEBUG'']
                              else cppflags);
                  cppflags = cppflags @ [''-D_FILE_OFFSET_BITS=64'',
                                         ''-D__STDC_CONSTANT_MACROS'',
                                         ''-D__STDC_FORMAT_MACROS'',
                                         ''-D__STDC_LIMIT_MACROS''];
                  cppflags = (if opt_gprof (options env) then cppflags @ [''-pg''] else cppflags);
                  linkflags = (if opt_gprof (options env) then linkflags @ [''-pg''] else linkflags);
                  cppflags = (if opt_coverage (options env)
                              then cppflags @ [''--coverage''] else cppflags);
                  linkflags = (if opt_coverage (options env)
                               then linkflags @ [''--coverage''] else linkflags);
                  cppflags = filter_cc_flags env cppflags None
              in Inr (cppflags, linkflags)))"

definition get_warning_flags :: "env \<Rightarrow> string list \<times> string list \<times> string list" where
  "get_warning_flags env =
     (let cc_config = section_cc_config (config env);
          cppflags = cfg_warnings cc_config;
          cxxflags = cfg_cxx_warnings cc_config;
          cflags = cfg_c_warnings cc_config;
          filtered_cppflags = filter_cc_flags env cppflags None;
          filtered_cxxflags = filter_cc_flags env cxxflags (Some ''c++'');
          filtered_cflags = filter_cc_flags env cflags (Some ''c'')
      in (filtered_cppflags, filtered_cxxflags, filtered_cflags))"

definition generate_cc_vars :: "env \<Rightarrow> gen \<Rightarrow> gen" where
  "generate_cc_vars env g =
     (case get_warning_flags env of (warnings, cxx_warnings, c_warnings) \<Rightarrow>
        (let c_warnings = c_warnings @ warnings;
             cxx_warnings = cxx_warnings @ warnings;
             optimize_flags = cfg_optimize (section_cc_config (config env));
             optimize = (if opt_profile (options env) = ''release''
                         then ''$optimize_flags'' else [])
         in add_rule (''c_warnings = '' @ str_join '' '' c_warnings @ nl
                      @ ''cxx_warnings = '' @ str_join '' '' cxx_warnings @ nl
                      @ ''optimize_flags = '' @ str_join '' '' optimize_flags @ nl
                      @ ''optimize = '' @ optimize @ nl) g))"


subsection \<open>The awk program of the compile rules\<close>

text \<open>
  The text that the regular expression of the awk program's first pattern matches at the
  start of a line.
\<close>

definition sentinel :: string where
  "sentinel = ''Multiple include guards may be useful for:''"

text \<open>
  \<^verbatim>\<open>awk_script\<close> as the Python literal spells it: \<^verbatim>\<open>$$\<close> is ninja's escape for one dollar
  sign, so awk reads \<^verbatim>\<open>$1 ~/^\.+$/\<close> and \<^verbatim>\<open>print $0\<close>.
\<close>

definition awk_script :: string where
  \<open>awk_script =
     sq @ ''BEGIN {stop=0} /^'' @ sentinel @ ''/ {stop=1}''
     @ '' !stop {if ($$1 ~/^'' @ bs @ ''.+$$/) print $$0; else print $$0 > "/dev/stderr"}'' @ sq\<close>

text \<open>
  What the awk program computes, one line of input at a time. \<^verbatim>\<open>$1\<close> is the first field of
  the line under awk's default field separator: leading blanks (spaces and tabs) are
  skipped and the field runs up to the next blank. \<^verbatim>\<open>$1 ~ /^\.+$/\<close> holds when that field is
  one or more dots and nothing else.
\<close>

definition awk_blank :: "char \<Rightarrow> bool" where
  "awk_blank c = (c = CHR '' '' \<or> c = CHR 0x09)"

definition awk_field1 :: "string \<Rightarrow> string" where
  "awk_field1 line = takeWhile (\<lambda>c. \<not> awk_blank c) (dropWhile awk_blank line)"

definition only_dots :: "string \<Rightarrow> bool" where
  "only_dots field = (field \<noteq> [] \<and> list_all (\<lambda>c. c = CHR ''.'') field)"

text \<open>
  The run of the program on the lines of its input, from the value of \<^verbatim>\<open>stop\<close> (\<^verbatim>\<open>BEGIN\<close> sets
  it to 0): the lines printed to standard output and those printed to \<^verbatim>\<open>/dev/stderr\<close>. For
  each line the first rule sets \<^verbatim>\<open>stop\<close> when the line starts with the sentinel, and then the
  second rule, when \<^verbatim>\<open>stop\<close> is still 0, prints the line to one of the two streams.
\<close>

fun awk_run :: "bool \<Rightarrow> string list \<Rightarrow> string list \<times> string list" where
  "awk_run stop [] = ([], [])"
| "awk_run stop (line # rest) =
     (let stop = (stop \<or> prefix sentinel line)
      in case awk_run stop rest of (out, err) \<Rightarrow>
           if \<not> stop
           then (if only_dots (awk_field1 line) then (line # out, err) else (out, line # err))
           else (out, err))"

subsection \<open>C and C++ rules\<close>

text \<open>
  The local \<^verbatim>\<open>template\<close> of \<^verbatim>\<open>generate_cc_rules\<close>, chosen by the probe's answer, as the function
  \<^verbatim>\<open>template % command\<close> of the command.
\<close>

definition template :: "bool \<Rightarrow> string \<Rightarrow> string" where
  "template pipefail command =
     (if pipefail
      then ''set -o pipefail && '' @ command @ '' -H 2>&1 | awk '' @ awk_script
           @ '' > ${out}.H''
      else command @ '' -H 2> ${out}.err && awk '' @ awk_script
           @ '' < ${out}.err > ${out}.H && rm -f ${out}.err'')"

definition builtin_command :: "env \<Rightarrow> string \<Rightarrow> string \<Rightarrow> string \<Rightarrow> string" where
  "builtin_command env builder prefix' suffix' =
     (let cmd = [''PYTHONPATH='' @ blade_path env @ '':$$PYTHONPATH''];
          cmd = (if prefix' \<noteq> [] then cmd @ [prefix'] else cmd);
          cmd = cmd @ [sys_executable env @ '' -m blade.builtin_tools '' @ builder];
          cmd = (if suffix' \<noteq> [] then cmd @ [suffix'] else cmd @ [''${out} ${in}''])
      in str_join '' '' cmd)"

text \<open>
  The locals \<^verbatim>\<open>includes\<close>, \<^verbatim>\<open>cc_command\<close> and \<^verbatim>\<open>cxx_command\<close> of \<^verbatim>\<open>generate_cc_rules\<close>, named so
  that statements about the compile rules can refer to them.
\<close>

definition cc_includes :: "env \<Rightarrow> string" where
  "cc_includes env =
     (let includes = cfg_extra_incs (section_cc_config (config env));
          includes = includes @ [''.'', build_dir env]
      in str_join '' '' (map (\<lambda>inc. ''-I'' @ inc) includes))"

definition cc_command :: "string \<Rightarrow> string list \<Rightarrow> string list \<Rightarrow> string \<Rightarrow> string" where
  "cc_command cc cflags cppflags includes =
     cc @ '' -o ${out} -MMD -MF ${out}.d -c -fPIC '' @ str_join '' '' cflags
     @ '' '' @ str_join '' '' cppflags @ '' ${optimize} ''
     @ ''${c_warnings} ${cppflags} '' @ includes @ '' ${includes} ${in}''"

definition cxx_command :: "string \<Rightarrow> string list \<Rightarrow> string list \<Rightarrow> string \<Rightarrow> string" where
  "cxx_command cxx cxxflags cppflags includes =
     cxx @ '' -o ${out} -MMD -MF ${out}.d -c -fPIC '' @ str_join '' '' cxxflags
     @ '' '' @ str_join '' '' cppflags @ '' ${optimize} ''
     @ ''${cxx_warnings} ${cppflags} '' @ includes @ '' ${includes} ${in}''"

definition generate_cc_rules :: "env \<Rightarrow> gen \<Rightarrow> error + gen" where
  "generate_cc_rules env g =
     (case get_cc_commands env of (cc, cxx, ld) \<Rightarrow>
     (let cc_config = section_cc_config (config env);
          cflags = cfg_cflags cc_config;
          cxxflags = cfg_cxxflags cc_config
      in (case get_cc_flags env of
           Inl e \<Rightarrow> Inl e
         | Inr (cppflags, ldflags) \<Rightarrow>
     (let cppflags = cfg_cppflags cc_config @ cppflags;
          arflags = concat (cfg_arflags (config env));
          ldflags = cfg_linkflags cc_config @ ldflags;
          includes = cc_includes env;
          g = generate_cc_vars env g
      in (case shell_support_pipefail (pipefail_probe env) of
           Inl e \<Rightarrow> Inl e
         | Inr pipefail \<Rightarrow>
     (let g = generate_rule env
                ((rule_kwargs ''cc''
                    (template pipefail (cc_command cc cflags cppflags includes)) ''CC ${in}'')
                   \<lparr>kw_depfile := Some ''${out}.d'', kw_deps := Some ''gcc''\<rparr>) g;
          g = generate_rule env
                ((rule_kwargs ''cxx''
                    (template pipefail (cxx_command cxx cxxflags cppflags includes))
                    ''CXX ${in}'')
                   \<lparr>kw_depfile := Some ''${out}.d'', kw_deps := Some ''gcc''\<rparr>) g;
          securecc = cfg_securecc cc_config @ '' '' @ cxx;
          g = generate_rule env
                (rule_kwargs ''securecccompile''
                   (securecc @ '' -o ${out} -c -fPIC '' @ str_join '' '' cxxflags @ '' ''
                    @ str_join '' '' cppflags @ '' ${optimize} ${cxx_warnings} ${cppflags} ''
                    @ includes @ '' ${includes} ${in}'')
                   ''SECURECC ${in}'') g;
          g = generate_rule env
                ((rule_kwargs ''securecc'' (builtin_command env ''securecc_object'' [] [])
                    ''SECURECC ${in}'')
                   \<lparr>kw_restat := True\<rparr>) g;
          g = generate_rule env
                (rule_kwargs ''ar'' (''rm -f $out; ar '' @ arflags @ '' $out $in'')
                   ''AR ${out}'') g;
          link_jobs = cfg_link_jobs (config env);
          (pool, g) =
            (case link_jobs of
               None \<Rightarrow> (None, g)
             | Some n \<Rightarrow>
                 if n \<noteq> 0
                 then (let link_jobs = min n (build_jobs_num env);
                           pool = ''link_pool''
                       in (Some pool,
                           add_rule (''pool '' @ pool @ nl @ ''  depth = '' @ str_int link_jobs) g))
                 else (None, g));
          g = generate_rule env
                ((rule_kwargs ''link''
                    (ld @ '' -o ${out} '' @ str_join '' '' ldflags
                     @ '' ${ldflags} ${in} ${extra_ldflags}'')
                    ''LINK ${out}'')
                   \<lparr>kw_pool := pool\<rparr>) g;
          g = generate_rule env
                ((rule_kwargs ''solink''
                    (ld @ '' -o ${out} -shared '' @ str_join '' '' ldflags
                     @ '' ${ldflags} ${in} ${extra_ldflags}'')
                    ''SHAREDLINK ${out}'')
                   \<lparr>kw_pool := pool\<rparr>) g;
          g = generate_rule env
                (rule_kwargs ''strip'' ''strip --strip-unneeded -o ${out} ${in}''
                   ''STRIP ${out}'') g
      in Inr g))))))"

subsection \<open>Protocol buffer rules\<close>

definition generate_proto_rules :: "env \<Rightarrow> gen \<Rightarrow> error + gen" where
  "generate_proto_rules env g =
     (let proto_config = section_proto_library_config (config env);
          protoc = cfg_protoc proto_config;
          protoc_java = protoc;
          protoc_java = (if truthy (cfg_protoc_java proto_config)
                         then py_str (cfg_protoc_java proto_config) else protoc_java);
          protobuf_incs = protoc_import_path_option (cfg_protobuf_incs proto_config);
          protobuf_java_incs = protobuf_incs;
          protobuf_java_incs = (if cfg_protobuf_java_incs proto_config \<noteq> []
                                then protoc_import_path_option (cfg_protobuf_java_incs proto_config)
                                else protobuf_java_incs);
          g = add_rule (''protocflags ='' @ nl @ ''protoccpppluginflags ='' @ nl
                        @ ''protocjavapluginflags ='' @ nl
                        @ ''protocpythonpluginflags ='' @ nl) g;
          g = generate_rule env
                (rule_kwargs ''proto''
                   (protoc @ '' --proto_path=. '' @ protobuf_incs @ '' -I=`dirname ${in}` ''
                    @ ''--cpp_out='' @ build_dir env
                    @ '' ${protocflags} ${protoccpppluginflags} ${in}'')
                   ''PROTOC ${in}'') g;
          g = generate_rule env
                (rule_kwargs ''protojava''
                   (protoc_java @ '' --proto_path=. '' @ protobuf_java_incs @ '' --java_out=''
                    @ build_dir env @ ''/`dirname ${in}` '' @ ''${protocjavapluginflags} ${in}'')
                   ''PROTOCJAVA ${in}'') g;
          g = generate_rule env
                (rule_kwargs ''protopython''
                   (protoc @ '' --proto_path=. '' @ protobuf_incs @ '' -I=`dirname ${in}` ''
                    @ ''--python_out='' @ build_dir env @ '' ${protocpythonpluginflags} ${in}'')
                   ''PROTOCPYTHON ${in}'') g;
          g = generate_rule env
                (rule_kwargs ''protodescriptors''
                   (protoc @ '' --proto_path=. '' @ protobuf_incs @ '' -I=`dirname ${first}` ''
                    @ ''--descriptor_set_out=${out} --include_imports ''
                    @ ''--include_source_info ${in}'')
                   ''PROTODESCRIPTORS ${in}'') g;
          protoc_go_plugin = cfg_protoc_go_plugin proto_config
      in if truthy protoc_go_plugin
         then (let go_home = cfg_go_home (section_go_config (config env));
                   go_module_enabled = cfg_go_module_enabled (section_go_config (config env));
                   go_module_relpath = cfg_go_module_relpath (section_go_config (config env))
               in if \<not> truthy go_home
                  then console_fatal ([CHR 0x22] @ ''go_config.go_home'' @ [CHR 0x22]
                                      @ '' is not configured'')
                  else (let outdir = (if go_module_enabled \<and> \<not> truthy go_module_relpath
                                      then cfg_protobuf_go_path proto_config
                                      else os_path_join (py_str go_home) [''src'']);
                            subplugins = cfg_protoc_go_subplugins proto_config;
                            go_out = (if subplugins \<noteq> []
                                      then ''plugins='' @ str_join ''+'' subplugins @ '':'' @ outdir
                                      else outdir)
                        in Inr (generate_rule env
                                  (rule_kwargs ''protogo''
                                     (protoc @ '' --proto_path=. '' @ protobuf_incs
                                      @ '' -I=`dirname ${in}` '' @ ''--plugin=protoc-gen-go=''
                                      @ py_str protoc_go_plugin @ '' --go_out='' @ go_out
                                      @ '' ${in}'')
                                     ''PROTOCGOLANG ${in}'') g)))
         else Inr g)"

subsection \<open>Resource, Java and Scala rules\<close>

definition generate_resource_rules :: "env \<Rightarrow> gen \<Rightarrow> gen" where
  \<open>generate_resource_rules env g =
     (let args = ''${name} ${path} ${out} ${in}'';
          g = generate_rule env
                (rule_kwargs ''resource_index'' (builtin_command env ''resource_index'' [] args)
                   ''RESOURCE INDEX ${out}'') g
      in generate_rule env
           (rule_kwargs ''resource''
              (''xxd -i ${in} | ''
               @ ''sed -e "s/^unsigned char /const char RESOURCE_/g" ''
               @ ''-e "s/^unsigned int /const unsigned int RESOURCE_/g" > ${out}'')
              ''RESOURCE ${in}'') g)\<close>

definition get_java_command :: "java_config \<Rightarrow> string \<Rightarrow> string" where
  "get_java_command java_config cmd =
     (let java_home = cfg_java_home java_config
      in if truthy java_home then os_path_join (py_str java_home) [''bin'', cmd] else cmd)"

definition get_jacocoagent :: "env \<Rightarrow> string" where
  "get_jacocoagent env =
     (let jacoco_home = cfg_jacoco_home (config env)
      in if truthy jacoco_home
         then os_path_join (py_str jacoco_home) [''lib'', ''jacocoagent.jar'']
         else [])"

definition generate_javac_rules :: "env \<Rightarrow> java_config \<Rightarrow> gen \<Rightarrow> gen" where
  "generate_javac_rules env java_config g =
     (let javac = get_java_command java_config ''javac'';
          jar = get_java_command java_config ''jar'';
          cmd = [javac];
          version = cfg_version java_config;
          source_version = (case cfg_source_version java_config of
                              None \<Rightarrow> version | Some v \<Rightarrow> v);
          target_version = (case cfg_target_version java_config of
                              None \<Rightarrow> version | Some v \<Rightarrow> v);
          cmd = (if truthy source_version
                 then cmd @ [''-source '' @ py_str source_version] else cmd);
          cmd = (if truthy target_version
                 then cmd @ [''-target '' @ py_str target_version] else cmd);
          cmd = cmd @ [''-encoding ${source_encoding}'',
                       ''-d ${classes_dir}'',
                       ''-classpath ${classpath}'',
                       ''${javacflags}'',
                       ''${in}''];
          g = add_rule (''source_encoding = UTF-8'' @ nl @ ''classpath = .'' @ nl
                        @ ''javacflags ='' @ nl) g
      in generate_rule env
           (rule_kwargs ''javac''
              (''rm -fr ${classes_dir} && mkdir -p ${classes_dir} && ''
               @ str_join '' '' cmd @ '' && sleep 0.01 && ''
               @ jar @ '' cf ${out} -C ${classes_dir} .'')
              ''JAVAC ${out}'') g)"

definition generate_java_resource_rules :: "env \<Rightarrow> gen \<Rightarrow> gen" where
  "generate_java_resource_rules env g =
     generate_rule env
       (rule_kwargs ''javaresource'' (builtin_command env ''java_resource'' [] [])
          ''JAVA RESOURCE ${in}'') g"

definition generate_java_test_rules :: "env \<Rightarrow> gen \<Rightarrow> gen" where
  "generate_java_test_rules env g =
     (let jacocoagent = get_jacocoagent env;
          args = ''--script=${out} --main_class=${mainclass} --jacocoagent='' @ jacocoagent
                 @ '' --packages_under_test=${packages_under_test} ${in}''
      in generate_rule env
           (rule_kwargs ''javatest'' (builtin_command env ''java_test'' [] args)
              ''JAVA TEST ${out}'') g)"

definition generate_java_binary_rules :: "env \<Rightarrow> gen \<Rightarrow> gen" where
  "generate_java_binary_rules env g =
     (let bootjar = cfg_one_jar_boot_jar (config env);
          args = ''--onejar=${out} --bootjar='' @ bootjar @ '' --main_class=${mainclass} ${in}'';
          g = generate_rule env
                (rule_kwargs ''onejar'' (builtin_command env ''java_onejar'' [] args)
                   ''ONE JAR ${out}'') g
      in generate_rule env
           (rule_kwargs ''javabinary'' (builtin_command env ''java_binary'' [] [])
              ''JAVA BIN ${out}'') g)"

definition generate_scalac_rule :: "env \<Rightarrow> java_config \<Rightarrow> gen \<Rightarrow> gen" where
  "generate_scalac_rule env java_config g =
     (let scalac = ''scalac'';
          scala_home = cfg_scala_home (config env);
          scalac = (if truthy scala_home
                    then os_path_join (py_str scala_home) [''bin'', scalac] else scalac);
          java = get_java_command java_config ''java'';
          g = add_rule (''scalacflags = -nowarn'' @ nl) g;
          cmd = [''JAVACMD='' @ java,
                 scalac,
                 ''-encoding UTF8'',
                 ''-d ${out}'',
                 ''-classpath ${classpath}'',
                 ''${scalacflags}'',
                 ''${in}'']
      in generate_rule env (rule_kwargs ''scalac'' (str_join '' '' cmd) ''SCALAC ${out}'') g)"

definition generate_scalatest_rule :: "env \<Rightarrow> java_config \<Rightarrow> gen \<Rightarrow> gen" where
  "generate_scalatest_rule env java_config g =
     (let java = get_java_command java_config ''java'';
          scala = ''scala'';
          scala_home = cfg_scala_home (config env);
          scala = (if truthy scala_home
                   then os_path_join (py_str scala_home) [''bin'', scala] else scala);
          jacocoagent = get_jacocoagent env;
          args = ''--java='' @ java @ '' --scala='' @ scala @ '' --jacocoagent='' @ jacocoagent
                 @ '' --packages_under_test=${packages_under_test} ''
                 @ ''--script=${out} ${in}''
      in generate_rule env
           (rule_kwargs ''scalatest'' (builtin_command env ''scala_test'' [] args)
              ''SCALA TEST ${out}'') g)"

definition generate_java_scala_rules :: "env \<Rightarrow> gen \<Rightarrow> gen" where
  "generate_java_scala_rules env g =
     (let java_config = section_java_config (config env);
          g = generate_javac_rules env java_config g;
          g = generate_java_resource_rules env g;
          jar = get_java_command java_config ''jar'';
          args = jar @ '' ${out} ${in}'';
          g = generate_rule env
                (rule_kwargs ''javajar'' (builtin_command env ''java_jar'' [] args)
                   ''JAVA JAR ${out}'') g;
          g = generate_java_test_rules env g;
          g = generate_rule env
                (rule_kwargs ''fatjar'' (builtin_command env ''java_fatjar'' [] [])
                   ''FAT JAR ${out}'') g;
          g = generate_java_binary_rules env g;
          g = generate_scalac_rule env java_config g
      in generate_scalatest_rule env java_config g)"

subsection \<open>Thrift, Python, Go, shell, lex/yacc, package and version rules\<close>

definition generate_thrift_rules :: "env \<Rightarrow> gen \<Rightarrow> gen" where
  "generate_thrift_rules env g =
     (let thrift_config = section_thrift_config (config env);
          incs = incs_list_to_string (cfg_thrift_incs thrift_config);
          gen_params = cfg_thrift_gen_params thrift_config;
          thrift = cfg_thrift thrift_config;
          thrift = (if prefix ''//'' thrift
                    then str_replace '':'' ''/'' (str_replace ''//'' (build_dir env @ ''/'') thrift)
                    else thrift)
      in generate_rule env
           (rule_kwargs ''thrift''
              (thrift @ '' --gen '' @ gen_params @ '' '' @ ''-I . '' @ incs
               @ '' -I `dirname ${in}` '' @ ''-out '' @ build_dir env @ ''/`dirname ${in}` ${in}'')
              ''THRIFT ${in}'') g)"

definition generate_python_rules :: "env \<Rightarrow> gen \<Rightarrow> gen" where
  "generate_python_rules env g =
     (let args = ''--basedir=${basedir} --pylib=${out} ${in}'';
          g = generate_rule env
                (rule_kwargs ''pythonlibrary'' (builtin_command env ''python_library'' [] args)
                   ''PYTHON LIBRARY ${out}'') g;
          args = ''--basedir=${basedir} --exclusions=${exclusions} --mainentry=${mainentry} ''
                 @ ''--pybin=${out} ${in}''
      in generate_rule env
           (rule_kwargs ''pythonbinary'' (builtin_command env ''python_binary'' [] args)
              ''PYTHON BINARY ${out}'') g)"

definition generate_go_rules :: "env \<Rightarrow> gen \<Rightarrow> gen" where
  "generate_go_rules env g =
     (let go_home = cfg_go_home (section_go_config (config env));
          go = cfg_go (section_go_config (config env));
          go_module_enabled = cfg_go_module_enabled (section_go_config (config env));
          go_module_relpath = cfg_go_module_relpath (section_go_config (config env))
      in if truthy go_home \<and> truthy go
         then (let go_pool = ''golang_pool'';
                   g = add_rule (''pool '' @ go_pool @ nl @ ''  depth = 1'' @ nl) g;
                   go_path = os_path_normpath env (os_path_abspath env (py_str go_home));
                   out_relative = [];
                   (prefix', out_relative) =
                     (if go_module_enabled
                      then (if truthy go_module_relpath
                            then (let relative_prefix =
                                        os_path_relpath env (py_str go) (py_str go_module_relpath)
                                  in (''cd '' @ py_str go_module_relpath @ '' && ''
                                      @ relative_prefix,
                                      os_path_join
                                        (os_path_relpath env ''./'' (py_str go_module_relpath))
                                        [[]]))
                            else (py_str go, out_relative))
                      else (''GOPATH='' @ go_path @ '' '' @ py_str go, out_relative));
                   g = generate_rule env
                         ((rule_kwargs ''gopackage''
                             (prefix' @ '' install ${extra_goflags} ${package}'')
                             ''GO INSTALL ${package}'')
                            \<lparr>kw_pool := Some go_pool\<rparr>) g;
                   g = generate_rule env
                         ((rule_kwargs ''gocommand''
                             (prefix' @ '' build -o '' @ out_relative
                              @ ''${out} ${extra_goflags} ${package}'')
                             ''GO BUILD ${package}'')
                            \<lparr>kw_pool := Some go_pool\<rparr>) g
               in generate_rule env
                    ((rule_kwargs ''gotest''
                        (prefix' @ '' test -c -o '' @ out_relative
                         @ ''${out} ${extra_goflags} ${package}'')
                        ''GO TEST ${package}'')
                       \<lparr>kw_pool := Some go_pool\<rparr>) g)
         else g)"

definition generate_shell_rules :: "env \<Rightarrow> gen \<Rightarrow> gen" where
  "generate_shell_rules env g =
     (let g = generate_rule env
                (rule_kwargs ''shelltest'' (builtin_command env ''shell_test'' [] [])
                   ''SHELL TEST ${out}'') g;
          args = ''${out} ${in} ${testdata}''
      in generate_rule env
           (rule_kwargs ''shelltestdata'' (builtin_command env ''shell_testdata'' [] args)
              ''SHELL TEST DATA ${out}'') g)"

definition generate_lex_yacc_rules :: "env \<Rightarrow> gen \<Rightarrow> gen" where
  "generate_lex_yacc_rules env g =
     (let g = generate_rule env
                (rule_kwargs ''lex'' ''flex ${lexflags} -o ${out} ${in}'' ''LEX ${in}'') g
      in generate_rule env
           (rule_kwargs ''yacc'' ''bison ${yaccflags} -o ${out} ${in}'' ''YACC ${in}'') g)"

definition generate_package_rules :: "env \<Rightarrow> gen \<Rightarrow> gen" where
  "generate_package_rules env g =
     (let args = ''${out} ${in} ${entries}'';
          g = generate_rule env
                (rule_kwargs ''package'' (builtin_command env ''package'' [] args)
                   ''PACKAGE ${out}'') g;
          g = generate_rule env
                (rule_kwargs ''package_tar''
                   ''tar -c -f ${out} ${tarflags} -C ${packageroot} ${entries}''
                   ''TAR ${out}'') g
      in generate_rule env
           (rule_kwargs ''package_zip''
              (''cd ${packageroot} && zip -q temp_archive.zip ${entries} && ''
               @ ''cd - && mv ${packageroot}/temp_archive.zip ${out}'')
              ''ZIP ${out}'') g)"

definition generate_version_rules :: "env \<Rightarrow> gen \<Rightarrow> gen" where
  \<open>generate_version_rules env g =
     (let cc = get_cc env;
          cc_version = get_cc_version env
      in case load_scm env of (revision, url) \<Rightarrow>
        (let args = ''--scm=${out} --revision=${revision} --url=${url} --profile=${profile} ''
                    @ ''--compiler="${compiler}"'';
             g = generate_rule env
                   (rule_kwargs ''scm'' (builtin_command env ''scm'' [] args) ''SCM ${out}'') g;
             scm = os_path_join (build_dir env) [''scm.cc''];
             g = add_rule (''build '' @ scm @ '': scm'' @ nl
                           @ ''  revision = '' @ revision @ nl
                           @ ''  url = '' @ url @ nl
                           @ ''  profile = '' @ opt_profile (options env) @ nl
                           @ ''  compiler = '' @ (cc @ '' '' @ cc_version) @ nl) g
         in add_rule (''build '' @ (scm @ ''.o'') @ '': cxx '' @ scm @ nl
                      @ ''  cppflags = -w -O2'' @ nl
                      @ ''  cxx_warnings ='' @ nl) g))\<close>

subsection \<open>A generation pass\<close>

text \<open>
  \<^verbatim>\<open>generate\<close> returns \<^verbatim>\<open>self.rules_buf\<close>; the model returns the generator's state, whose
  \<^const>\<open>rules_buf\<close> is that list. An exception raised by one of the steps ends the pass.
\<close>

definition generate :: "env \<Rightarrow> gen \<Rightarrow> error + gen" where
  "generate env g =
     (let g = generate_file_header env g;
          g = generate_common_rules env g
      in (case generate_cc_rules env g of
            Inl e \<Rightarrow> Inl e
          | Inr g \<Rightarrow>
         (case generate_proto_rules env g of
            Inl e \<Rightarrow> Inl e
          | Inr g \<Rightarrow>
         (let g = generate_resource_rules env g;
              g = generate_java_scala_rules env g;
              g = generate_thrift_rules env g;
              g = generate_python_rules env g;
              g = generate_go_rules env g;
              g = generate_shell_rules env g;
              g = generate_lex_yacc_rules env g;
              g = generate_package_rules env g;
              g = generate_version_rules env g
          in Inr g))))"

section \<open>\<^verbatim>\<open>NinjaFileGenerator\<close>\<close>

text \<open>
  \<^verbatim>\<open>generate_build_rules\<close> runs a pass of a fresh header generator and appends the rules of
  the targets. \<^verbatim>\<open>generate_build_script\<close> opens the script file only after that: the second
  component of its result is the content written to \<^verbatim>\<open>script_path\<close>, \<^const>\<open>None\<close> when the
  file was not opened.
\<close>

definition generate_build_rules :: "env \<Rightarrow> error + string list" where
  "generate_build_rules env =
     (case generate env init of
        Inl e \<Rightarrow> Inl e
      | Inr g \<Rightarrow> Inr (rules_buf g @ gen_targets_rules env))"

definition generate_build_script :: "env \<Rightarrow> (error + string list) \<times> string list option" where
  "generate_build_script env =
     (case generate_build_rules env of
        Inl e \<Rightarrow> (Inl e, None)
      | Inr rules \<Rightarrow> (Inr rules, Some rules))"

section \<open>The shell commands of the two templates\<close>

text \<open>
  The command of a compile rule is a text for \<^verbatim>\<open>sh\<close>. The two templates use four programs
  (\<^verbatim>\<open>set -o pipefail\<close>, the compile command with \<^verbatim>\<open>-H\<close>, \<^verbatim>\<open>awk\<close> with a program text and
  \<^verbatim>\<open>rm -f\<close>), four redirections, \<^verbatim>\<open>&&\<close> and \<^verbatim>\<open>|\<close>. \<open>render\<close> writes a command as the text the
  shell reads; \<^verbatim>\<open>|\<close> binds tighter than \<^verbatim>\<open>&&\<close>, and \<^verbatim>\<open>&&\<close> associates to the left.
\<close>

datatype redirect = ErrToOut | ErrToFile string | OutToFile string | InFromFile string

datatype program = SetPipefail | Compile string | Awk string | RmF string

datatype sh = Simple program "redirect list" | AndThen sh sh | Pipe sh sh

fun render_redirect :: "redirect \<Rightarrow> string" where
  "render_redirect ErrToOut = ''2>&1''"
| "render_redirect (ErrToFile f) = ''2> '' @ f"
| "render_redirect (OutToFile f) = ''> '' @ f"
| "render_redirect (InFromFile f) = ''< '' @ f"

fun render_program :: "program \<Rightarrow> string" where
  "render_program SetPipefail = ''set -o pipefail''"
| "render_program (Compile command) = command @ '' -H''"
| "render_program (Awk script) = ''awk '' @ script"
| "render_program (RmF f) = ''rm -f '' @ f"

fun render :: "sh \<Rightarrow> string" where
  "render (Simple p rs) = render_program p @ concat (map (\<lambda>r. '' '' @ render_redirect r) rs)"
| "render (AndThen a b) = render a @ '' && '' @ render b"
| "render (Pipe a b) = render a @ '' | '' @ render b"

text \<open>The two templates of \<^verbatim>\<open>generate_cc_rules\<close> as commands.\<close>

definition template_sh :: "bool \<Rightarrow> string \<Rightarrow> sh" where
  "template_sh pipefail command =
     (if pipefail
      then AndThen (Simple SetPipefail [])
             (Pipe (Simple (Compile command) [ErrToOut])
                   (Simple (Awk awk_script) [OutToFile ''${out}.H'']))
      else AndThen
             (AndThen (Simple (Compile command) [ErrToFile ''${out}.err''])
                      (Simple (Awk awk_script) [InFromFile ''${out}.err'', OutToFile ''${out}.H'']))
             (Simple (RmF ''${out}.err'') []))"

text \<open>
  One run of the compile command: its exit status and the lines it writes to its standard
  error (with \<^verbatim>\<open>-c -o ${out}\<close> the compiler writes nothing to its standard output).
\<close>

record compile_run =
  compile_status :: int
  compile_stderr :: "string list"

text \<open>
  What a run of a rule's command leaves behind: the files it wrote, by the names the command
  gives them, whether \<^verbatim>\<open>pipefail\<close> is set, and the lines that reached the rule's standard error.
\<close>

record sh_state =
  sh_files :: "string \<rightharpoonup> string list"
  sh_pipefail :: bool
  sh_shown :: "string list"

definition sh_start :: sh_state where
  "sh_start = \<lparr>sh_files = Map.empty, sh_pipefail = False, sh_shown = []\<rparr>"

text \<open>
  A program reads its standard input and gives its exit status, its standard output and its
  standard error. The only awk program whose meaning is known is \<^const>\<open>awk_script\<close>, which
  computes \<^const>\<open>awk_run\<close> and exits with status 0; for any other program text the run has no
  result.
\<close>

fun run_program ::
  "compile_run \<Rightarrow> program \<Rightarrow> string list \<Rightarrow> sh_state
     \<Rightarrow> (int \<times> string list \<times> string list \<times> sh_state) option" where
  "run_program r SetPipefail input st = Some (0, [], [], st\<lparr>sh_pipefail := True\<rparr>)"
| "run_program r (Compile command) input st = Some (compile_status r, [], compile_stderr r, st)"
| "run_program r (Awk script) input st =
     (if script = awk_script
      then (case awk_run False input of (out, err) \<Rightarrow> Some (0, out, err, st))
      else None)"
| "run_program r (RmF f) input st = Some (0, [], [], st\<lparr>sh_files := (sh_files st)(f := None)\<rparr>)"

text \<open>
  A simple command with its redirections: \<^verbatim>\<open>< f\<close> gives the file as input (the shell fails
  with status 1 when it is missing), \<^verbatim>\<open>2>&1\<close> sends the standard error where the standard
  output goes, \<^verbatim>\<open>> f\<close> and \<^verbatim>\<open>2> f\<close> write a stream to a file, and a standard error that is not
  redirected is shown. \<^verbatim>\<open>a && b\<close> runs \<open>b\<close> when \<open>a\<close> exits with status 0. \<^verbatim>\<open>a | b\<close> gives the
  output of \<open>a\<close> to \<open>b\<close>; its status is that of \<open>b\<close>, and under \<^verbatim>\<open>pipefail\<close> that of \<open>a\<close> when
  \<open>b\<close> succeeds.
\<close>

fun exec ::
  "compile_run \<Rightarrow> sh \<Rightarrow> string list \<Rightarrow> sh_state \<Rightarrow> (int \<times> string list \<times> sh_state) option"
  where
  "exec r (Simple p rs) input st =
     (case (case [f. InFromFile f \<leftarrow> rs] of [] \<Rightarrow> Some input | f # _ \<Rightarrow> sh_files st f) of
        None \<Rightarrow> Some (1, [], st)
      | Some input' \<Rightarrow>
          (case run_program r p input' st of
             None \<Rightarrow> None
           | Some (status, out, err, st) \<Rightarrow>
               (let (out, err) = (if ErrToOut \<in> set rs then (out @ err, []) else (out, err));
                    (out, st) = (case [f. OutToFile f \<leftarrow> rs] of
                                   [] \<Rightarrow> (out, st)
                                 | f # _ \<Rightarrow> ([], st\<lparr>sh_files := (sh_files st)(f \<mapsto> out)\<rparr>));
                    st = (case [f. ErrToFile f \<leftarrow> rs] of
                            [] \<Rightarrow> st\<lparr>sh_shown := sh_shown st @ err\<rparr>
                          | f # _ \<Rightarrow> st\<lparr>sh_files := (sh_files st)(f \<mapsto> err)\<rparr>)
                in Some (status, out, st))))"
| "exec r (AndThen a b) input st =
     (case exec r a input st of
        None \<Rightarrow> None
      | Some (status, out, st) \<Rightarrow>
          if status = 0
          then (case exec r b input st of
                  None \<Rightarrow> None
                | Some (status', out', st) \<Rightarrow> Some (status', out @ out', st))
          else Some (status, out, st))"
| "exec r (Pipe a b) input st =
     (case exec r a input st of
        None \<Rightarrow> None
      | Some (status, out, st) \<Rightarrow>
          (case exec r b out st of
             None \<Rightarrow> None
           | Some (status', out', st) \<Rightarrow>
               Some (if sh_pipefail st \<and> status' = 0 then status else status', out', st)))"

section \<open>Auxiliary notions for the statements\<close>

text \<open>The entries that one call of \<^const>\<open>generate_rule\<close> appends to the buffer.\<close>

definition rule_block :: "env \<Rightarrow> rule_kw \<Rightarrow> string list" where
  "rule_block env kw =
     [''rule '' @ kw_name kw @ nl, ''  command = '' @ kw_command kw @ nl]
     @ (if truthy (kw_description kw)
        then [''  description = '' @ colored env (py_str (kw_description kw)) ''dimpurple'' @ nl]
        else [])
     @ (if truthy (kw_depfile kw) then [''  depfile = '' @ py_str (kw_depfile kw) @ nl] else [])
     @ (if kw_generator kw then [''  generator = 1'' @ nl] else [])
     @ (if truthy (kw_pool kw) then [''  pool = '' @ py_str (kw_pool kw) @ nl] else [])
     @ (if kw_restat kw then [''  restat = 1'' @ nl] else [])
     @ (if truthy (kw_rspfile kw) then [''  rspfile = '' @ py_str (kw_rspfile kw) @ nl] else [])
     @ (if truthy (kw_rspfile_content kw)
        then [''  rspfile_content = '' @ py_str (kw_rspfile_content kw) @ nl] else [])
     @ (if truthy (kw_deps kw) then [''  deps = '' @ py_str (kw_deps kw) @ nl] else [])
     @ [nl]"

text \<open>
  An entry of the buffer declares the pool \<open>p\<close> when it opens with the line \<^verbatim>\<open>pool p\<close>; it is a
  rule's pool assignment when it is the line \<^verbatim>\<open>  pool = p\<close>, and \<open>pool_ref\<close> reads the name.
\<close>

definition pool_decl :: "string \<Rightarrow> string \<Rightarrow> bool" where
  "pool_decl p entry = prefix (''pool '' @ p @ nl) entry"

definition pool_ref :: "string \<Rightarrow> string option" where
  "pool_ref entry =
     (if prefix ''  pool = '' entry \<and> 10 \<le> length entry \<and> last entry = CHR 0x0A
      then Some (butlast (drop 9 entry)) else None)"


text \<open>A sample environment for the concrete runs.\<close>

definition sample_config :: config where
  "sample_config =
     \<lparr>cfg_debug_info_level = ''mid'',
      section_cc_config =
        \<lparr>cfg_debug_info_levels = [(''mid'', [''-g''])],
         cfg_warnings = [''-Wall''], cfg_cxx_warnings = [], cfg_c_warnings = [],
         cfg_optimize = [''-O2''], cfg_cflags = [], cfg_cxxflags = [''-std=c++11''],
         cfg_cppflags = [], cfg_linkflags = [], cfg_extra_incs = [],
         cfg_securecc = ''scc''\<rparr>,
      cfg_arflags = [''rcs''],
      cfg_link_jobs = None,
      section_proto_library_config =
        \<lparr>cfg_protoc = ''protoc'', cfg_protoc_java = None, cfg_protobuf_incs = [],
         cfg_protobuf_java_incs = [], cfg_protoc_go_plugin = None,
         cfg_protobuf_go_path = ''pb/go'', cfg_protoc_go_subplugins = []\<rparr>,
      section_go_config =
        \<lparr>cfg_go_home = None, cfg_go = None, cfg_go_module_enabled = False,
         cfg_go_module_relpath = None\<rparr>,
      section_java_config =
        \<lparr>cfg_java_home = None, cfg_version = Some ''8'', cfg_source_version = None,
         cfg_target_version = None\<rparr>,
      cfg_jacoco_home = None,
      cfg_one_jar_boot_jar = ''boot.jar'',
      cfg_scala_home = None,
      section_thrift_config =
        \<lparr>cfg_thrift_incs = [], cfg_thrift_gen_params = ''cpp'', cfg_thrift = ''thrift''\<rparr>\<rparr>"

definition sample_env :: env where
  "sample_env =
     \<lparr>build_dir = ''b64'',
      blade_path = ''/blade'',
      options = \<lparr>opt_m = Some ''64'', opt_profile = ''release'', opt_gprof = False,
                 opt_coverage = False\<rparr>,
      config = sample_config,
      get_cc_commands = (''gcc'', ''g++'', ''g++''),
      filter_cc_flags = (\<lambda>flags language. flags),
      get_cc = ''gcc'',
      get_cc_version = ''9'',
      build_jobs_num = 8,
      load_scm = (''r1'', ''url''),
      pipefail_probe = Exited 0,
      colored = (\<lambda>text color. text),
      sys_executable = ''python'',
      os_path_abspath = (\<lambda>path. path),
      os_path_normpath = (\<lambda>path. path),
      os_path_relpath = (\<lambda>path start. ''../'' @ path),
      gen_targets_rules = []\<rparr>"

text \<open>The same with a link-jobs limit, a Go toolchain in module mode and a Go protobuf plugin.\<close>

definition sample_go_env :: env where
  "sample_go_env =
     sample_env
       \<lparr>config := sample_config
          \<lparr>cfg_link_jobs := Some 16,
           section_proto_library_config :=
             (section_proto_library_config sample_config)
               \<lparr>cfg_protoc_go_plugin := Some ''protoc-gen-go''\<rparr>,
           section_go_config :=
             \<lparr>cfg_go_home = Some ''/go'', cfg_go = Some ''go'', cfg_go_module_enabled = True,
              cfg_go_module_relpath = Some ''mod''\<rparr>\<rparr>\<rparr>"

text \<open>The sample environment with a Go protobuf plugin and no Go home.\<close>

definition sample_plugin_env :: env where
  "sample_plugin_env =
     sample_env
       \<lparr>config := sample_config
          \<lparr>section_proto_library_config :=
             (section_proto_library_config sample_config)
               \<lparr>cfg_protoc_go_plugin := Some ''protoc-gen-go''\<rparr>\<rparr>\<rparr>"

text \<open>
  Module mode without a module-relative path; a shell without \<^verbatim>\<open>pipefail\<close> (the probe exits
  with status 2); and no shell at all (the probe cannot be started).
\<close>

definition sample_gomod_env :: env where
  "sample_gomod_env =
     sample_go_env
       \<lparr>config := (config sample_go_env)
          \<lparr>section_go_config :=
             \<lparr>cfg_go_home = Some ''/go'', cfg_go = Some ''go'', cfg_go_module_enabled = True,
              cfg_go_module_relpath = None\<rparr>\<rparr>\<rparr>"

definition sample_dash_env :: env where
  "sample_dash_env = sample_env\<lparr>pipefail_probe := Exited 2\<rparr>"

definition sample_noshell_env :: env where
  "sample_noshell_env = sample_env\<lparr>pipefail_probe := SpawnFailed\<rparr>"

section \<open>The buffer and the names after a step\<close>

lemma rules_buf_add_rule: "rules_buf (add_rule r g) = rules_buf g @ [r @ nl]"
  by (simp add: add_rule_def)

lemma names_add_rule: "all_rule_names (add_rule r g) = all_rule_names g"
  by (simp add: add_rule_def)

lemma rules_buf_if_add_rule:
  "rules_buf (if c then add_rule r g else g) = rules_buf g @ (if c then [r @ nl] else [])"
  by (simp add: rules_buf_add_rule)

lemma names_if_add_rule: "all_rule_names (if c then add_rule r g else g) = all_rule_names g"
  by (simp add: names_add_rule)

lemma rules_buf_generate_rule:
  "rules_buf (generate_rule env kw g) = rules_buf g @ rule_block env kw"
  unfolding generate_rule_def rule_block_def Let_def
  by (simp add: rules_buf_add_rule rules_buf_if_add_rule split del: if_split cong: if_cong)

lemma names_generate_rule:
  "all_rule_names (generate_rule env kw g) = insert (kw_name kw) (all_rule_names g)"
  unfolding generate_rule_def Let_def
  by (simp add: names_add_rule names_if_add_rule split del: if_split cong: if_cong)

lemma rules_buf_fold_generate_rule:
  "rules_buf (fold (generate_rule env) kws g) = rules_buf g @ concat (map (rule_block env) kws)"
  by (induction kws arbitrary: g) (simp_all add: rules_buf_generate_rule)

lemma names_fold_generate_rule:
  "all_rule_names (fold (generate_rule env) kws g) = all_rule_names g \<union> kw_name ` set kws"
  by (induction kws arbitrary: g) (simp_all add: names_generate_rule)

lemma kw_rule_kwargs:
  "kw_name (rule_kwargs n c d) = n"
  "kw_command (rule_kwargs n c d) = c"
  "kw_description (rule_kwargs n c d) = Some d"
  "kw_pool (rule_kwargs n c d) = None"
  by (simp_all add: rule_kwargs_def)

lemma sample_env_simps:
  "colored sample_env t c = t"
  "build_dir sample_env = ''b64''"
  "blade_path sample_env = ''/blade''"
  "sys_executable sample_env = ''python''"
  "config sample_env = sample_config"
  "get_cc_commands sample_env = (''gcc'', ''g++'', ''g++'')"
  "filter_cc_flags sample_env fl la = fl"
  "pipefail_probe sample_env = Exited 0"
  "build_jobs_num sample_env = 8"
  "options sample_env = \<lparr>opt_m = Some ''64'', opt_profile = ''release'', opt_gprof = False,
                 opt_coverage = False\<rparr>"
  by (simp_all add: sample_env_def)

lemma rule_block_plain:
  "rule_block env (rule_kwargs n c d) =
     [''rule '' @ n @ nl, ''  command = '' @ c @ nl]
     @ (if d \<noteq> [] then [''  description = '' @ colored env d ''dimpurple'' @ nl] else [])
     @ [nl]"
  by (simp add: rule_block_def rule_kwargs_def)

lemma init_simps: "rules_buf init = []" "all_rule_names init = {}"
  by (simp_all add: init_def)

lemma sample_go_env_simps:
  "colored sample_go_env t c = t"
  "build_dir sample_go_env = ''b64''"
  "blade_path sample_go_env = ''/blade''"
  "sys_executable sample_go_env = ''python''"
  "get_cc_commands sample_go_env = (''gcc'', ''g++'', ''g++'')"
  "filter_cc_flags sample_go_env fl la = fl"
  "pipefail_probe sample_go_env = Exited 0"
  "build_jobs_num sample_go_env = 8"
  "os_path_abspath sample_go_env p = p"
  "os_path_normpath sample_go_env p = p"
  "os_path_relpath sample_go_env p q = ''../'' @ p"
  "options sample_go_env = \<lparr>opt_m = Some ''64'', opt_profile = ''release'', opt_gprof = False,
                 opt_coverage = False\<rparr>"
  "cfg_link_jobs (config sample_go_env) = Some 16"
  "section_go_config (config sample_go_env) =
     \<lparr>cfg_go_home = Some ''/go'', cfg_go = Some ''go'', cfg_go_module_enabled = True,
      cfg_go_module_relpath = Some ''mod''\<rparr>"
  "section_proto_library_config (config sample_go_env) =
     \<lparr>cfg_protoc = ''protoc'', cfg_protoc_java = None, cfg_protobuf_incs = [],
      cfg_protobuf_java_incs = [], cfg_protoc_go_plugin = Some ''protoc-gen-go'',
      cfg_protobuf_go_path = ''pb/go'', cfg_protoc_go_subplugins = []\<rparr>"
  "section_cc_config (config sample_go_env) = section_cc_config sample_config"
  "cfg_debug_info_level (config sample_go_env) = ''mid''"
  by (simp_all add: sample_go_env_def sample_env_def sample_config_def)

lemma sample_cc_flags:
  "get_cc_flags sample_env
     = Inr ([''-m64'', ''-pipe'', ''-fno-omit-frame-pointer'', ''-g'', ''-DNDEBUG'',
             ''-D_FILE_OFFSET_BITS=64'', ''-D__STDC_CONSTANT_MACROS'',
             ''-D__STDC_FORMAT_MACROS'', ''-D__STDC_LIMIT_MACROS''], [''-m64''])"
  "get_cc_flags sample_go_env = get_cc_flags sample_env"
  "get_cc_flags sample_plugin_env = get_cc_flags sample_env"
  by (simp_all add: get_cc_flags_def sample_env_def sample_go_env_def sample_plugin_env_def
      sample_config_def)

lemma str_int_8: "str_int 8 = ''8''"
  by (simp add: str_int_def)

lemma rule_block_depfile_deps:
  "rule_block env ((rule_kwargs n c d)\<lparr>kw_depfile := Some f, kw_deps := Some x\<rparr>) =
     [''rule '' @ n @ nl, ''  command = '' @ c @ nl]
     @ (if d \<noteq> [] then [''  description = '' @ colored env d ''dimpurple'' @ nl] else [])
     @ (if f \<noteq> [] then [''  depfile = '' @ f @ nl] else [])
     @ (if x \<noteq> [] then [''  deps = '' @ x @ nl] else [])
     @ [nl]"
  by (simp add: rule_block_def rule_kwargs_def)

lemma rule_block_restat:
  "rule_block env ((rule_kwargs n c d)\<lparr>kw_restat := True\<rparr>) =
     [''rule '' @ n @ nl, ''  command = '' @ c @ nl]
     @ (if d \<noteq> [] then [''  description = '' @ colored env d ''dimpurple'' @ nl] else [])
     @ [''  restat = 1'' @ nl, nl]"
  by (simp add: rule_block_def rule_kwargs_def)

lemma rule_block_pool:
  "rule_block env ((rule_kwargs n c d)\<lparr>kw_pool := p\<rparr>) =
     [''rule '' @ n @ nl, ''  command = '' @ c @ nl]
     @ (if d \<noteq> [] then [''  description = '' @ colored env d ''dimpurple'' @ nl] else [])
     @ (if truthy p then [''  pool = '' @ py_str p @ nl] else [])
     @ [nl]"
  by (simp add: rule_block_def rule_kwargs_def)

lemma rules_buf_generate_cc_vars:
  "\<exists>v. rules_buf (generate_cc_vars env g) = rules_buf g @ [''c_warnings = '' @ v]"
  by (simp add: generate_cc_vars_def Let_def rules_buf_add_rule split: prod.splits)

lemmas rule_block_shapes =
  rule_block_plain rule_block_depfile_deps rule_block_restat rule_block_pool

section \<open>Errors of a pass\<close>

lemma generate_proto_rules_fatal:
  \<open>truthy (cfg_protoc_go_plugin (section_proto_library_config (config env))) \<Longrightarrow>
   \<not> truthy (cfg_go_home (section_go_config (config env))) \<Longrightarrow>
   generate_proto_rules env g = Inl (Fatal ''"go_config.go_home" is not configured'')\<close>
  by (simp add: generate_proto_rules_def Let_def console_fatal_def)

lemma get_cc_flags_Inl:
  "get_cc_flags env = Inl e \<longleftrightarrow>
     map_of (cfg_debug_info_levels (section_cc_config (config env)))
       (cfg_debug_info_level (config env)) = None
     \<and> e = KeyError (cfg_debug_info_level (config env))"
  by (auto simp add: get_cc_flags_def Let_def split: option.splits)

lemma generate_cc_rules_Inl:
  "generate_cc_rules env g = Inl e \<longleftrightarrow>
     get_cc_flags env = Inl e
     \<or> (\<not> isl (get_cc_flags env) \<and> pipefail_probe env = SpawnFailed \<and> e = OSError)"
  by (auto simp add: generate_cc_rules_def shell_support_pipefail_def Let_def
      split: prod.splits sum.splits probe_outcome.splits option.splits)

lemma generate_Inl:
  "generate env g = Inl e \<longleftrightarrow>
     generate_cc_rules env (generate_common_rules env (generate_file_header env g)) = Inl e
     \<or> (\<exists>g1. generate_cc_rules env (generate_common_rules env (generate_file_header env g)) = Inr g1
           \<and> generate_proto_rules env g1 = Inl e)"
  by (simp add: generate_def Let_def split: sum.splits)

lemma generate_proto_rules_Inl:
  \<open>generate_proto_rules env g = Inl e \<longleftrightarrow>
     truthy (cfg_protoc_go_plugin (section_proto_library_config (config env)))
     \<and> \<not> truthy (cfg_go_home (section_go_config (config env)))
     \<and> e = Fatal ''"go_config.go_home" is not configured''\<close>
  by (auto simp add: generate_proto_rules_def Let_def console_fatal_def)

section \<open>The entries that \<^const>\<open>generate_cc_rules\<close> appends\<close>

lemma generate_cc_rules_buf:
  assumes "get_cc_commands env = (cc, cxx, ld)"
    and "get_cc_flags env = Inr (cppflags0, ldflags0)"
    and "pipefail_probe env = Exited status"
    and "pool = (case cfg_link_jobs (config env) of
                   None \<Rightarrow> None
                 | Some n \<Rightarrow> if n \<noteq> 0 then Some ''link_pool'' else None)"
    and "cppflags = cfg_cppflags (section_cc_config (config env)) @ cppflags0"
    and "ldflags = cfg_linkflags (section_cc_config (config env)) @ ldflags0"
    and "cxxflags = cfg_cxxflags (section_cc_config (config env))"
  shows "\<exists>g'. generate_cc_rules env g = Inr g'
          \<and> rules_buf g'
              = rules_buf (generate_cc_vars env g)
                @ rule_block env
                    ((rule_kwargs ''cc''
                        (template (status = 0)
                           (cc_command cc (cfg_cflags (section_cc_config (config env)))
                              cppflags (cc_includes env)))
                        ''CC ${in}'')
                       \<lparr>kw_depfile := Some ''${out}.d'', kw_deps := Some ''gcc''\<rparr>)
                @ rule_block env
                    ((rule_kwargs ''cxx''
                        (template (status = 0)
                           (cxx_command cxx cxxflags cppflags (cc_includes env)))
                        ''CXX ${in}'')
                       \<lparr>kw_depfile := Some ''${out}.d'', kw_deps := Some ''gcc''\<rparr>)
                @ rule_block env
                    (rule_kwargs ''securecccompile''
                       ((cfg_securecc (section_cc_config (config env)) @ '' '' @ cxx)
                        @ '' -o ${out} -c -fPIC '' @ str_join '' '' cxxflags @ '' ''
                        @ str_join '' '' cppflags @ '' ${optimize} ${cxx_warnings} ${cppflags} ''
                        @ cc_includes env @ '' ${includes} ${in}'')
                       ''SECURECC ${in}'')
                @ rule_block env
                    ((rule_kwargs ''securecc'' (builtin_command env ''securecc_object'' [] [])
                        ''SECURECC ${in}'')
                       \<lparr>kw_restat := True\<rparr>)
                @ rule_block env
                    (rule_kwargs ''ar''
                       (''rm -f $out; ar '' @ concat (cfg_arflags (config env)) @ '' $out $in'')
                       ''AR ${out}'')
                @ (case cfg_link_jobs (config env) of
                     None \<Rightarrow> []
                   | Some n \<Rightarrow>
                       if n \<noteq> 0
                       then [''pool link_pool'' @ nl @ ''  depth = ''
                             @ str_int (min n (build_jobs_num env)) @ nl]
                       else [])
                @ rule_block env
                    ((rule_kwargs ''link''
                        (ld @ '' -o ${out} '' @ str_join '' '' ldflags
                         @ '' ${ldflags} ${in} ${extra_ldflags}'')
                        ''LINK ${out}'')
                       \<lparr>kw_pool := pool\<rparr>)
                @ rule_block env
                    ((rule_kwargs ''solink''
                        (ld @ '' -o ${out} -shared '' @ str_join '' '' ldflags
                         @ '' ${ldflags} ${in} ${extra_ldflags}'')
                        ''SHAREDLINK ${out}'')
                       \<lparr>kw_pool := pool\<rparr>)
                @ rule_block env
                    (rule_kwargs ''strip'' ''strip --strip-unneeded -o ${out} ${in}''
                       ''STRIP ${out}'')"
proof (cases "cfg_link_jobs (config env)")
  case None
  show ?thesis
    unfolding generate_cc_rules_def Let_def shell_support_pipefail_def assms None
    by (simp only: prod.case sum.case probe_outcome.case option.case sum.inject simp_thms
        ex_simps rules_buf_generate_rule append_assoc append_Nil)
next
  case (Some n)
  show ?thesis
  proof (cases "n = 0")
    case True
    show ?thesis
      unfolding generate_cc_rules_def Let_def shell_support_pipefail_def assms Some
      by (simp only: True prod.case sum.case probe_outcome.case option.case sum.inject simp_thms
          ex_simps rules_buf_generate_rule append_assoc append_Nil if_False if_True)
  next
    case False
    show ?thesis
      unfolding generate_cc_rules_def Let_def shell_support_pipefail_def assms Some
      by (simp only: False prod.case sum.case probe_outcome.case option.case sum.inject simp_thms
          ex_simps rules_buf_generate_rule rules_buf_add_rule append_assoc append_Nil
          if_False if_True append_Cons)
  qed
qed

lemma generate_cc_rules_compile_rules:
  assumes "get_cc_commands env = (cc, cxx, ld)"
    and "get_cc_flags env = Inr (cppflags0, ldflags0)"
    and "pipefail_probe env = Exited status"
  shows "\<exists>g'. generate_cc_rules env g = Inr g'
      \<and> take 12 (drop (length (rules_buf g) + 1) (rules_buf g'))
          = [''rule cc'' @ nl,
             ''  command = ''
             @ template (status = 0)
                 (cc_command cc (cfg_cflags (section_cc_config (config env)))
                    (cfg_cppflags (section_cc_config (config env)) @ cppflags0)
                    (cc_includes env))
             @ nl,
             ''  description = '' @ colored env ''CC ${in}'' ''dimpurple'' @ nl,
             ''  depfile = ${out}.d'' @ nl,
             ''  deps = gcc'' @ nl,
             nl,
             ''rule cxx'' @ nl,
             ''  command = ''
             @ template (status = 0)
                 (cxx_command cxx (cfg_cxxflags (section_cc_config (config env)))
                    (cfg_cppflags (section_cc_config (config env)) @ cppflags0)
                    (cc_includes env))
             @ nl,
             ''  description = '' @ colored env ''CXX ${in}'' ''dimpurple'' @ nl,
             ''  depfile = ${out}.d'' @ nl,
             ''  deps = gcc'' @ nl,
             nl]"
proof -
  obtain v where vars: "rules_buf (generate_cc_vars env g) = rules_buf g @ [''c_warnings = '' @ v]"
    using rules_buf_generate_cc_vars by blast
  from generate_cc_rules_buf [OF assms refl refl refl refl, of g]
  obtain g' where ok: "generate_cc_rules env g = Inr g'"
    and buf: "\<exists>rest. drop (length (rules_buf g) + 1) (rules_buf g')
       = rule_block env
           ((rule_kwargs ''cc''
               (template (status = 0)
                  (cc_command cc (cfg_cflags (section_cc_config (config env)))
                     (cfg_cppflags (section_cc_config (config env)) @ cppflags0)
                     (cc_includes env)))
               ''CC ${in}'')
              \<lparr>kw_depfile := Some ''${out}.d'', kw_deps := Some ''gcc''\<rparr>)
         @ rule_block env
             ((rule_kwargs ''cxx''
                 (template (status = 0)
                    (cxx_command cxx (cfg_cxxflags (section_cc_config (config env)))
                       (cfg_cppflags (section_cc_config (config env)) @ cppflags0)
                       (cc_includes env)))
                 ''CXX ${in}'')
                \<lparr>kw_depfile := Some ''${out}.d'', kw_deps := Some ''gcc''\<rparr>)
         @ rest"
    by (auto simp add: vars)
  from buf obtain rest where "drop (length (rules_buf g) + 1) (rules_buf g')
       = rule_block env
           ((rule_kwargs ''cc''
               (template (status = 0)
                  (cc_command cc (cfg_cflags (section_cc_config (config env)))
                     (cfg_cppflags (section_cc_config (config env)) @ cppflags0)
                     (cc_includes env)))
               ''CC ${in}'')
              \<lparr>kw_depfile := Some ''${out}.d'', kw_deps := Some ''gcc''\<rparr>)
         @ rule_block env
             ((rule_kwargs ''cxx''
                 (template (status = 0)
                    (cxx_command cxx (cfg_cxxflags (section_cc_config (config env)))
                       (cfg_cppflags (section_cc_config (config env)) @ cppflags0)
                       (cc_includes env)))
                 ''CXX ${in}'')
                \<lparr>kw_depfile := Some ''${out}.d'', kw_deps := Some ''gcc''\<rparr>)
         @ rest" ..
  then have "take 12 (drop (length (rules_buf g) + 1) (rules_buf g'))
          = [''rule cc'' @ nl,
             ''  command = ''
             @ template (status = 0)
                 (cc_command cc (cfg_cflags (section_cc_config (config env)))
                    (cfg_cppflags (section_cc_config (config env)) @ cppflags0)
                    (cc_includes env))
             @ nl,
             ''  description = '' @ colored env ''CC ${in}'' ''dimpurple'' @ nl,
             ''  depfile = ${out}.d'' @ nl,
             ''  deps = gcc'' @ nl,
             nl,
             ''rule cxx'' @ nl,
             ''  command = ''
             @ template (status = 0)
                 (cxx_command cxx (cfg_cxxflags (section_cc_config (config env)))
                    (cfg_cppflags (section_cc_config (config env)) @ cppflags0)
                    (cc_includes env))
             @ nl,
             ''  description = '' @ colored env ''CXX ${in}'' ''dimpurple'' @ nl,
             ''  depfile = ${out}.d'' @ nl,
             ''  deps = gcc'' @ nl,
             nl]"
    by (simp add: rule_block_shapes)
  with ok show ?thesis by blast
qed

lemma template_differs: "template True command \<noteq> template False command"
proof
  assume "template True command = template False command"
  then have "length (template True command) = length (template False command)"
    by simp
  then show False
    by (simp add: template_def)
qed

lemma awk_run_stopped: "awk_run True ls = ([], [])"
  by (induction ls) simp_all

lemma awk_run_before_sentinel:
  "\<forall>l \<in> set pre. \<not> prefix sentinel l \<Longrightarrow> prefix sentinel line \<Longrightarrow>
   awk_run False (pre @ line # post)
     = (filter (\<lambda>l. only_dots (awk_field1 l)) pre,
        filter (\<lambda>l. \<not> only_dots (awk_field1 l)) pre)"
  by (induction pre) (simp_all add: awk_run_stopped)

lemma sample_gomod_env_simps:
  "colored sample_gomod_env t c = t"
  "build_dir sample_gomod_env = ''b64''"
  "section_go_config (config sample_gomod_env) =
     \<lparr>cfg_go_home = Some ''/go'', cfg_go = Some ''go'', cfg_go_module_enabled = True,
      cfg_go_module_relpath = None\<rparr>"
  "section_proto_library_config (config sample_gomod_env) =
     \<lparr>cfg_protoc = ''protoc'', cfg_protoc_java = None, cfg_protobuf_incs = [],
      cfg_protobuf_java_incs = [], cfg_protoc_go_plugin = Some ''protoc-gen-go'',
      cfg_protobuf_go_path = ''pb/go'', cfg_protoc_go_subplugins = []\<rparr>"
  by (simp_all add: sample_gomod_env_def sample_go_env_def sample_env_def sample_config_def)

lemma go_home_src: "os_path_join ''/go'' [''src''] = ''/go/src''"
  by (simp add: os_path_join_def path_join2_def suffix_to_prefix)

lemma sample_probe_env_simps:
  "get_cc_commands sample_dash_env = (''gcc'', ''g++'', ''g++'')"
  "get_cc_flags sample_dash_env = get_cc_flags sample_env"
  "pipefail_probe sample_dash_env = Exited 2"
  "config sample_dash_env = sample_config"
  "build_dir sample_dash_env = ''b64''"
  "get_cc_commands sample_noshell_env = (''gcc'', ''g++'', ''g++'')"
  "get_cc_flags sample_noshell_env = get_cc_flags sample_env"
  "pipefail_probe sample_noshell_env = SpawnFailed"
  by (simp_all add: sample_dash_env_def sample_noshell_env_def sample_env_def get_cc_flags_def
      sample_config_def)

lemma sample_includes:
  "cc_includes sample_env = ''-I. -Ib64''"
  "cc_includes sample_dash_env = ''-I. -Ib64''"
  by (simp_all add: cc_includes_def sample_env_simps sample_probe_env_simps sample_config_def)

lemma awk_sample_fields:
  "only_dots (awk_field1 ''. a.h'')"
  "only_dots (awk_field1 ''.. b.h'')"
  "\<not> only_dots (awk_field1 ''x.c:1:2: warning: w'')"
  "\<not> only_dots (awk_field1 ''../a.h:1:1: warning: w'')"
  by (simp_all add: only_dots_def awk_field1_def awk_blank_def)



section \<open>Rule names\<close>

text \<open>
  Claim C10. For every sequence of \<^const>\<open>generate_rule\<close> calls on a fresh generator, the lists
  that \<^const>\<open>get_all_rule_names\<close> may return are exactly the duplicate-free lists whose
  elements are the names passed to the calls, in any order; every call, also one that repeats
  a name, appends its rule block to the buffer, and no call raises (the result of
  \<^const>\<open>generate_rule\<close> is a state, never an error).
\<close>

theorem C10_rule_names_are_a_set:
  "(get_all_rule_names (fold (generate_rule env) kws init) names
      \<longleftrightarrow> distinct names \<and> set names = kw_name ` set kws)
   \<and> rules_buf (fold (generate_rule env) kws init) = concat (map (rule_block env) kws)"
  by (simp add: get_all_rule_names_def names_fold_generate_rule rules_buf_fold_generate_rule
      init_def)

text \<open>
  The name \<^verbatim>\<open>a\<close> is declared twice: both blocks are in the buffer, the name is listed once, and
  the list may come in an order other than that of the declarations.
\<close>

theorem C10_witness:
  "get_all_rule_names
     (fold (generate_rule sample_env)
        [rule_kwargs ''a'' ''x'' ''A'', rule_kwargs ''b'' ''y'' ''B'', rule_kwargs ''a'' ''z'' ''C'']
        init)
     [''b'', ''a'']
   \<and> rules_buf
       (fold (generate_rule sample_env)
          [rule_kwargs ''a'' ''x'' ''A'', rule_kwargs ''b'' ''y'' ''B'', rule_kwargs ''a'' ''z'' ''C'']
          init)
     = [''rule a'' @ nl, ''  command = x'' @ nl, ''  description = A'' @ nl, nl,
        ''rule b'' @ nl, ''  command = y'' @ nl, ''  description = B'' @ nl, nl,
        ''rule a'' @ nl, ''  command = z'' @ nl, ''  description = C'' @ nl, nl]"
proof -
  let ?kws = "[rule_kwargs ''a'' ''x'' ''A'', rule_kwargs ''b'' ''y'' ''B'',
               rule_kwargs ''a'' ''z'' ''C'']"
  note t = C10_rule_names_are_a_set [of sample_env ?kws "[''b'', ''a'']"]
  have names: "distinct [''b'', ''a''] \<and> set [''b'', ''a''] = kw_name ` set ?kws"
    by (auto simp add: kw_rule_kwargs)
  have blocks: "concat (map (rule_block sample_env) ?kws)
      = [''rule a'' @ nl, ''  command = x'' @ nl, ''  description = A'' @ nl, nl,
         ''rule b'' @ nl, ''  command = y'' @ nl, ''  description = B'' @ nl, nl,
         ''rule a'' @ nl, ''  command = z'' @ nl, ''  description = C'' @ nl, nl]"
    by (simp add: rule_block_plain sample_env_simps)
  show ?thesis
    by (rule conjI [OF t [THEN conjunct1, THEN iffD2, OF names]
          trans [OF t [THEN conjunct2] blocks]])
qed

text \<open>
  Claim C1, as amended. Declaring a rule whose name has already been declared in the pass is
  accepted: the set of declared names is unchanged and a further rule block, opening with the
  \<^verbatim>\<open>rule\<close> and \<^verbatim>\<open>command\<close> lines of the declaration, is appended to the buffer. The source has no
  duplicate-name check and \<^const>\<open>generate_rule\<close> has no error to return.
\<close>

theorem C1_duplicate_name_is_accepted:
  "kw_name kw \<in> all_rule_names g \<Longrightarrow>
     all_rule_names (generate_rule env kw g) = all_rule_names g
     \<and> rules_buf (generate_rule env kw g) = rules_buf g @ rule_block env kw
     \<and> take 2 (rule_block env kw) = [''rule '' @ kw_name kw @ nl, ''  command = '' @ kw_command kw @ nl]"
  by (simp add: names_generate_rule rules_buf_generate_rule insert_absorb rule_block_def)

theorem C1_witness:
  "''copy'' \<in> all_rule_names (generate_common_rules sample_env init)
   \<and> all_rule_names (generate_common_rules sample_env (generate_common_rules sample_env init))
       = all_rule_names (generate_common_rules sample_env init)"
  using C1_duplicate_name_is_accepted
    [of "rule_kwargs ''copy'' ''cp -f ${in} ${out}'' ''COPY ${in} ${out}''"
        "generate_common_rules sample_env init" sample_env]
  by (simp add: generate_common_rules_def names_generate_rule kw_rule_kwargs)

text \<open>
  Claim C1 as stated fails: \<^verbatim>\<open>copy\<close> is declared, declared again, and the second declaration
  is in the buffer after the first.
\<close>

theorem C1_counterexample:
  "''copy'' \<in> all_rule_names (generate_common_rules sample_env init)
   \<and> rules_buf (generate_common_rules sample_env (generate_common_rules sample_env init))
       = [''rule copy'' @ nl, ''  command = cp -f ${in} ${out}'' @ nl,
          ''  description = COPY ${in} ${out}'' @ nl, nl,
          ''rule copy'' @ nl, ''  command = cp -f ${in} ${out}'' @ nl,
          ''  description = COPY ${in} ${out}'' @ nl, nl]"
  by (simp add: generate_common_rules_def names_generate_rule rules_buf_generate_rule
      rule_block_plain init_def sample_env_simps kw_rule_kwargs)

section \<open>Go rules\<close>

text \<open>
  Claim C7. When the Go home or the Go executable is not configured (\<^verbatim>\<open>None\<close> or empty, the
  source's test \<^verbatim>\<open>if go_home and go\<close>), \<^const>\<open>generate_go_rules\<close> leaves the generator as it
  is: no rule, no pool, no name, no error. When both are configured it appends the
  declaration of \<^verbatim>\<open>golang_pool\<close> with depth 1, whatever the configuration holds, and then the
  three rules \<^verbatim>\<open>gopackage\<close>, \<^verbatim>\<open>gocommand\<close> and \<^verbatim>\<open>gotest\<close>, each with the line
  \<^verbatim>\<open>pool = golang_pool\<close>.
\<close>

theorem C7_go_rules:
  "(\<not> (truthy (cfg_go_home (section_go_config (config env)))
        \<and> truthy (cfg_go (section_go_config (config env))))
      \<longrightarrow> generate_go_rules env g = g)
   \<and> (truthy (cfg_go_home (section_go_config (config env)))
        \<and> truthy (cfg_go (section_go_config (config env)))
      \<longrightarrow> (\<exists>install build test.
            rules_buf (generate_go_rules env g)
              = rules_buf g
                @ [''pool golang_pool'' @ nl @ ''  depth = 1'' @ nl @ nl,
                   ''rule gopackage'' @ nl,
                   ''  command = '' @ install @ nl,
                   ''  description = '' @ colored env ''GO INSTALL ${package}'' ''dimpurple'' @ nl,
                   ''  pool = golang_pool'' @ nl,
                   nl,
                   ''rule gocommand'' @ nl,
                   ''  command = '' @ build @ nl,
                   ''  description = '' @ colored env ''GO BUILD ${package}'' ''dimpurple'' @ nl,
                   ''  pool = golang_pool'' @ nl,
                   nl,
                   ''rule gotest'' @ nl,
                   ''  command = '' @ test @ nl,
                   ''  description = '' @ colored env ''GO TEST ${package}'' ''dimpurple'' @ nl,
                   ''  pool = golang_pool'' @ nl,
                   nl])
          \<and> all_rule_names (generate_go_rules env g)
              = all_rule_names g \<union> {''gopackage'', ''gocommand'', ''gotest''})"
  by (simp add: generate_go_rules_def Let_def rules_buf_generate_rule names_generate_rule
      rules_buf_add_rule names_add_rule rule_block_def rule_kwargs_def split: prod.splits)
     auto

theorem C7_witness:
  "generate_go_rules sample_env init = init
   \<and> take 1 (rules_buf (generate_go_rules sample_go_env init))
       = [''pool golang_pool'' @ nl @ ''  depth = 1'' @ nl @ nl]
   \<and> map (\<lambda>i. rules_buf (generate_go_rules sample_go_env init) ! i) [1, 4, 6, 9, 11, 14]
       = [''rule gopackage'' @ nl, ''  pool = golang_pool'' @ nl,
          ''rule gocommand'' @ nl, ''  pool = golang_pool'' @ nl,
          ''rule gotest'' @ nl, ''  pool = golang_pool'' @ nl]
   \<and> all_rule_names (generate_go_rules sample_go_env init)
       = {''gopackage'', ''gocommand'', ''gotest''}"
proof -
  have absent: "\<not> (truthy (cfg_go_home (section_go_config (config sample_env)))
                 \<and> truthy (cfg_go (section_go_config (config sample_env))))"
    by (simp add: sample_env_def sample_config_def)
  have present: "truthy (cfg_go_home (section_go_config (config sample_go_env)))
                 \<and> truthy (cfg_go (section_go_config (config sample_go_env)))"
    by (simp add: sample_go_env_simps)
  have noop: "generate_go_rules sample_env init = init"
    using C7_go_rules [of sample_env init] absent by blast
  from C7_go_rules [of sample_go_env init] present
  obtain install build test where
    buf: "rules_buf (generate_go_rules sample_go_env init)
              = rules_buf init
                @ [''pool golang_pool'' @ nl @ ''  depth = 1'' @ nl @ nl,
                   ''rule gopackage'' @ nl,
                   ''  command = '' @ install @ nl,
                   ''  description = '' @ colored sample_go_env ''GO INSTALL ${package}'' ''dimpurple'' @ nl,
                   ''  pool = golang_pool'' @ nl,
                   nl,
                   ''rule gocommand'' @ nl,
                   ''  command = '' @ build @ nl,
                   ''  description = '' @ colored sample_go_env ''GO BUILD ${package}'' ''dimpurple'' @ nl,
                   ''  pool = golang_pool'' @ nl,
                   nl,
                   ''rule gotest'' @ nl,
                   ''  command = '' @ test @ nl,
                   ''  description = '' @ colored sample_go_env ''GO TEST ${package}'' ''dimpurple'' @ nl,
                   ''  pool = golang_pool'' @ nl,
                   nl]"
    and names: "all_rule_names (generate_go_rules sample_go_env init)
              = all_rule_names init \<union> {''gopackage'', ''gocommand'', ''gotest''}"
    by blast
  show ?thesis
    by (simp add: noop buf names init_simps)
qed

section \<open>A Go protobuf plugin without a Go home\<close>

text \<open>
  Claim C5. When a Go protobuf plugin is configured and the Go home is not,
  \<^const>\<open>generate_proto_rules\<close> ends in the fatal error of \<^const>\<open>console_fatal\<close>; a pass ends in an
  error (that fatal error, unless the C/C++ rules before it already raised), no \<^verbatim>\<open>protogo\<close>
  rule is skipped silently, and \<^const>\<open>generate_build_script\<close> writes no script.
\<close>

theorem C5_missing_go_home_is_fatal:
  \<open>truthy (cfg_protoc_go_plugin (section_proto_library_config (config env))) \<Longrightarrow>
   \<not> truthy (cfg_go_home (section_go_config (config env))) \<Longrightarrow>
   generate_proto_rules env g = Inl (Fatal ''"go_config.go_home" is not configured'')
   \<and> generate env g
       = (case generate_cc_rules env (generate_common_rules env (generate_file_header env g)) of
            Inl e \<Rightarrow> Inl e
          | Inr g' \<Rightarrow> Inl (Fatal ''"go_config.go_home" is not configured''))
   \<and> (\<exists>e. generate_build_rules env = Inl e \<and> generate_build_script env = (Inl e, None))\<close>
proof -
  assume plugin: "truthy (cfg_protoc_go_plugin (section_proto_library_config (config env)))"
    and home: "\<not> truthy (cfg_go_home (section_go_config (config env)))"
  have proto: \<open>generate_proto_rules env h
      = Inl (Fatal ''"go_config.go_home" is not configured'')\<close>
    for h
    by (rule generate_proto_rules_fatal [OF plugin home])
  have pass: \<open>generate env h
      = (case generate_cc_rules env (generate_common_rules env (generate_file_header env h)) of
           Inl e \<Rightarrow> Inl e
         | Inr g' \<Rightarrow> Inl (Fatal ''"go_config.go_home" is not configured''))\<close>
    for h
    by (simp add: generate_def Let_def proto split: sum.splits)
  have "\<exists>e. generate env init = Inl e"
    by (simp add: pass split: sum.splits)
  then obtain e where e: "generate env init = Inl e" ..
  have script: "generate_build_rules env = Inl e \<and> generate_build_script env = (Inl e, None)"
    by (simp add: generate_build_rules_def generate_build_script_def e)
  show ?thesis
    using proto [of g] pass [of g] script by blast
qed

theorem C5_witness:
  \<open>generate_proto_rules sample_plugin_env init
     = Inl (Fatal ''"go_config.go_home" is not configured'')
   \<and> generate sample_plugin_env init = Inl (Fatal ''"go_config.go_home" is not configured'')
   \<and> generate_build_script sample_plugin_env
     = (Inl (Fatal ''"go_config.go_home" is not configured''), None)\<close>
proof -
  have plugin: "truthy (cfg_protoc_go_plugin
                         (section_proto_library_config (config sample_plugin_env)))"
    and home: "\<not> truthy (cfg_go_home (section_go_config (config sample_plugin_env)))"
    by (simp_all add: sample_plugin_env_def sample_env_def sample_config_def)
  note t = C5_missing_go_home_is_fatal [OF plugin home, of init]
  have "\<not> isl (get_cc_flags sample_plugin_env)"
    by (simp add: sample_cc_flags)
  moreover have "pipefail_probe sample_plugin_env = Exited 0"
    by (simp add: sample_plugin_env_def sample_env_def)
  ultimately have "\<nexists>e. generate_cc_rules sample_plugin_env
           (generate_common_rules sample_plugin_env
              (generate_file_header sample_plugin_env init)) = Inl e"
    by (auto simp add: generate_cc_rules_Inl)
  then obtain g1 where "generate_cc_rules sample_plugin_env
           (generate_common_rules sample_plugin_env
              (generate_file_header sample_plugin_env init)) = Inr g1"
    by (metis sum.exhaust)
  with t have pass: \<open>generate sample_plugin_env init
      = Inl (Fatal ''"go_config.go_home" is not configured'')\<close>
    by simp
  from t obtain e where "generate_build_rules sample_plugin_env = Inl e"
    and script: "generate_build_script sample_plugin_env = (Inl e, None)"
    by blast
  with pass have \<open>e = Fatal ''"go_config.go_home" is not configured''\<close>
    by (simp add: generate_build_rules_def)
  with t pass script show ?thesis
    by blast
qed

section \<open>The link pool\<close>

text \<open>
  Claim C4. Whenever \<^const>\<open>generate_cc_rules\<close> gets its flags and the probe's answer, it
  returns a state. With a link-jobs limit configured (a number other than zero, the source's
  test \<^verbatim>\<open>if link_jobs\<close>) the entries after the \<^verbatim>\<open>ar\<close> rule are the declaration of \<^verbatim>\<open>link_pool\<close>
  with depth \<^verbatim>\<open>min(link_jobs, build_jobs_num())\<close> and the rules \<^verbatim>\<open>link\<close> and \<^verbatim>\<open>solink\<close>, both with
  the line \<^verbatim>\<open>pool = link_pool\<close>; with no limit they are the two rules without a pool line.
  None of the 26 entries before them declares or references a pool, so without a limit no
  pool is declared at all.
\<close>

theorem C4_link_pool:
  assumes "get_cc_commands env = (cc, cxx, ld)"
    and "get_cc_flags env = Inr (cppflags0, ldflags0)"
    and "pipefail_probe env = Exited status"
    and "ldflags = str_join '' '' (cfg_linkflags (section_cc_config (config env)) @ ldflags0)"
  shows "\<exists>g'. generate_cc_rules env g = Inr g'
      \<and> (\<forall>e \<in> set (take 26 (drop (length (rules_buf g)) (rules_buf g'))).
            \<not> prefix ''pool '' e \<and> pool_ref e = None)
      \<and> (\<forall>n. cfg_link_jobs (config env) = Some n \<and> n \<noteq> 0 \<longrightarrow>
            drop (length (rules_buf g) + 26) (rules_buf g')
              = [''pool link_pool'' @ nl @ ''  depth = ''
                 @ str_int (min n (build_jobs_num env)) @ nl,
                 ''rule link'' @ nl,
                 ''  command = '' @ ld @ '' -o ${out} '' @ ldflags
                 @ '' ${ldflags} ${in} ${extra_ldflags}'' @ nl,
                 ''  description = '' @ colored env ''LINK ${out}'' ''dimpurple'' @ nl,
                 ''  pool = link_pool'' @ nl,
                 nl,
                 ''rule solink'' @ nl,
                 ''  command = '' @ ld @ '' -o ${out} -shared '' @ ldflags
                 @ '' ${ldflags} ${in} ${extra_ldflags}'' @ nl,
                 ''  description = '' @ colored env ''SHAREDLINK ${out}'' ''dimpurple'' @ nl,
                 ''  pool = link_pool'' @ nl,
                 nl,
                 ''rule strip'' @ nl,
                 ''  command = strip --strip-unneeded -o ${out} ${in}'' @ nl,
                 ''  description = '' @ colored env ''STRIP ${out}'' ''dimpurple'' @ nl,
                 nl])
      \<and> (cfg_link_jobs (config env) = None \<or> cfg_link_jobs (config env) = Some 0 \<longrightarrow>
            drop (length (rules_buf g) + 26) (rules_buf g')
              = [''rule link'' @ nl,
                 ''  command = '' @ ld @ '' -o ${out} '' @ ldflags
                 @ '' ${ldflags} ${in} ${extra_ldflags}'' @ nl,
                 ''  description = '' @ colored env ''LINK ${out}'' ''dimpurple'' @ nl,
                 nl,
                 ''rule solink'' @ nl,
                 ''  command = '' @ ld @ '' -o ${out} -shared '' @ ldflags
                 @ '' ${ldflags} ${in} ${extra_ldflags}'' @ nl,
                 ''  description = '' @ colored env ''SHAREDLINK ${out}'' ''dimpurple'' @ nl,
                 nl,
                 ''rule strip'' @ nl,
                 ''  command = strip --strip-unneeded -o ${out} ${in}'' @ nl,
                 ''  description = '' @ colored env ''STRIP ${out}'' ''dimpurple'' @ nl,
                 nl])"
proof -
  obtain v where vars: "rules_buf (generate_cc_vars env g) = rules_buf g @ [''c_warnings = '' @ v]"
    using rules_buf_generate_cc_vars by blast
  from generate_cc_rules_buf [OF assms(1-3) refl refl refl refl, of g]
  obtain g' where ok: "generate_cc_rules env g = Inr g'"
    and buf: "drop (length (rules_buf g)) (rules_buf g')
       = [''c_warnings = '' @ v]
         @ rule_block env
                    ((rule_kwargs ''cc''
                        (template (status = 0)
                           (cc_command cc (cfg_cflags (section_cc_config (config env)))
                              (cfg_cppflags (section_cc_config (config env)) @ cppflags0)
                              (cc_includes env)))
                        ''CC ${in}'')
                       \<lparr>kw_depfile := Some ''${out}.d'', kw_deps := Some ''gcc''\<rparr>)
                @ rule_block env
                    ((rule_kwargs ''cxx''
                        (template (status = 0)
                           (cxx_command cxx (cfg_cxxflags (section_cc_config (config env)))
                              (cfg_cppflags (section_cc_config (config env)) @ cppflags0)
                              (cc_includes env)))
                        ''CXX ${in}'')
                       \<lparr>kw_depfile := Some ''${out}.d'', kw_deps := Some ''gcc''\<rparr>)
                @ rule_block env
                    (rule_kwargs ''securecccompile''
                       ((cfg_securecc (section_cc_config (config env)) @ '' '' @ cxx)
                        @ '' -o ${out} -c -fPIC ''
                        @ str_join '' '' (cfg_cxxflags (section_cc_config (config env))) @ '' ''
                        @ str_join '' '' (cfg_cppflags (section_cc_config (config env)) @ cppflags0)
                        @ '' ${optimize} ${cxx_warnings} ${cppflags} ''
                        @ cc_includes env @ '' ${includes} ${in}'')
                       ''SECURECC ${in}'')
                @ rule_block env
                    ((rule_kwargs ''securecc'' (builtin_command env ''securecc_object'' [] [])
                        ''SECURECC ${in}'')
                       \<lparr>kw_restat := True\<rparr>)
                @ rule_block env
                    (rule_kwargs ''ar''
                       (''rm -f $out; ar '' @ concat (cfg_arflags (config env)) @ '' $out $in'')
                       ''AR ${out}'')
                @ (case cfg_link_jobs (config env) of
                     None \<Rightarrow> []
                   | Some n \<Rightarrow>
                       if n \<noteq> 0
                       then [''pool link_pool'' @ nl @ ''  depth = ''
                             @ str_int (min n (build_jobs_num env)) @ nl]
                       else [])
                @ rule_block env
                    ((rule_kwargs ''link''
                        (ld @ '' -o ${out} '' @ ldflags
                         @ '' ${ldflags} ${in} ${extra_ldflags}'')
                        ''LINK ${out}'')
                       \<lparr>kw_pool := (case cfg_link_jobs (config env) of
                   None \<Rightarrow> None
                 | Some n \<Rightarrow> if n \<noteq> 0 then Some ''link_pool'' else None)\<rparr>)
                @ rule_block env
                    ((rule_kwargs ''solink''
                        (ld @ '' -o ${out} -shared '' @ ldflags
                         @ '' ${ldflags} ${in} ${extra_ldflags}'')
                        ''SHAREDLINK ${out}'')
                       \<lparr>kw_pool := (case cfg_link_jobs (config env) of
                   None \<Rightarrow> None
                 | Some n \<Rightarrow> if n \<noteq> 0 then Some ''link_pool'' else None)\<rparr>)
                @ rule_block env
                    (rule_kwargs ''strip'' ''strip --strip-unneeded -o ${out} ${in}''
                       ''STRIP ${out}'')"
    by (auto simp add: vars assms(4))
  have first: "\<forall>e \<in> set (take 26 (drop (length (rules_buf g)) (rules_buf g'))).
            \<not> prefix ''pool '' e \<and> pool_ref e = None"
    unfolding buf by (simp add: rule_block_shapes pool_ref_def nl_def)
  have drop_plus: "drop (length (rules_buf g) + 26) (rules_buf g')
      = drop 26 (drop (length (rules_buf g)) (rules_buf g'))"
    by (simp add: add.commute)
  have limit: "\<forall>n. cfg_link_jobs (config env) = Some n \<and> n \<noteq> 0 \<longrightarrow>
            drop (length (rules_buf g) + 26) (rules_buf g')
              = [''pool link_pool'' @ nl @ ''  depth = ''
                 @ str_int (min n (build_jobs_num env)) @ nl,
                 ''rule link'' @ nl,
                 ''  command = '' @ ld @ '' -o ${out} '' @ ldflags
                 @ '' ${ldflags} ${in} ${extra_ldflags}'' @ nl,
                 ''  description = '' @ colored env ''LINK ${out}'' ''dimpurple'' @ nl,
                 ''  pool = link_pool'' @ nl,
                 nl,
                 ''rule solink'' @ nl,
                 ''  command = '' @ ld @ '' -o ${out} -shared '' @ ldflags
                 @ '' ${ldflags} ${in} ${extra_ldflags}'' @ nl,
                 ''  description = '' @ colored env ''SHAREDLINK ${out}'' ''dimpurple'' @ nl,
                 ''  pool = link_pool'' @ nl,
                 nl,
                 ''rule strip'' @ nl,
                 ''  command = strip --strip-unneeded -o ${out} ${in}'' @ nl,
                 ''  description = '' @ colored env ''STRIP ${out}'' ''dimpurple'' @ nl,
                 nl]"
    unfolding drop_plus buf by (simp add: rule_block_shapes)
  have none: "cfg_link_jobs (config env) = None \<or> cfg_link_jobs (config env) = Some 0 \<longrightarrow>
            drop (length (rules_buf g) + 26) (rules_buf g')
              = [''rule link'' @ nl,
                 ''  command = '' @ ld @ '' -o ${out} '' @ ldflags
                 @ '' ${ldflags} ${in} ${extra_ldflags}'' @ nl,
                 ''  description = '' @ colored env ''LINK ${out}'' ''dimpurple'' @ nl,
                 nl,
                 ''rule solink'' @ nl,
                 ''  command = '' @ ld @ '' -o ${out} -shared '' @ ldflags
                 @ '' ${ldflags} ${in} ${extra_ldflags}'' @ nl,
                 ''  description = '' @ colored env ''SHAREDLINK ${out}'' ''dimpurple'' @ nl,
                 nl,
                 ''rule strip'' @ nl,
                 ''  command = strip --strip-unneeded -o ${out} ${in}'' @ nl,
                 ''  description = '' @ colored env ''STRIP ${out}'' ''dimpurple'' @ nl,
                 nl]"
    unfolding drop_plus buf by (auto simp add: rule_block_shapes)
  show ?thesis
    using ok first limit none by blast
qed

theorem C4_witness:
  "\<not> isl (generate_cc_rules sample_go_env init)
   \<and> take 5 (drop 26 (rules_buf (projr (generate_cc_rules sample_go_env init))))
       = [''pool link_pool'' @ nl @ ''  depth = 8'' @ nl,
          ''rule link'' @ nl,
          ''  command = g++ -o ${out} -m64 ${ldflags} ${in} ${extra_ldflags}'' @ nl,
          ''  description = LINK ${out}'' @ nl,
          ''  pool = link_pool'' @ nl]
   \<and> \<not> isl (generate_cc_rules sample_env init)
   \<and> take 5 (drop 26 (rules_buf (projr (generate_cc_rules sample_env init))))
       = [''rule link'' @ nl,
          ''  command = g++ -o ${out} -m64 ${ldflags} ${in} ${extra_ldflags}'' @ nl,
          ''  description = LINK ${out}'' @ nl,
          nl,
          ''rule solink'' @ nl]"
proof -
  have go: "cfg_link_jobs (config sample_go_env) = Some 16 \<and> (16::int) \<noteq> 0"
    by (simp add: sample_go_env_simps)
  have plain: "cfg_link_jobs (config sample_env) = None
               \<or> cfg_link_jobs (config sample_env) = Some 0"
    by (simp add: sample_env_simps sample_config_def)
  from C4_link_pool [of sample_go_env "''gcc''" "''g++''" "''g++''" _ "[''-m64'']" 0 _ init,
      OF _ _ _ refl]
  obtain g1 where 1: "generate_cc_rules sample_go_env init = Inr g1"
    and 2: "\<forall>n. cfg_link_jobs (config sample_go_env) = Some n \<and> n \<noteq> 0 \<longrightarrow>
            take 5 (drop (length (rules_buf init) + 26) (rules_buf g1))
              = [''pool link_pool'' @ nl @ ''  depth = ''
                 @ str_int (min n (build_jobs_num sample_go_env)) @ nl,
                 ''rule link'' @ nl,
                 ''  command = g++ -o ${out} -m64 ${ldflags} ${in} ${extra_ldflags}'' @ nl,
                 ''  description = LINK ${out}'' @ nl,
                 ''  pool = link_pool'' @ nl]"
    by (auto simp add: sample_go_env_simps sample_cc_flags sample_config_def)
  from C4_link_pool [of sample_env "''gcc''" "''g++''" "''g++''" _ "[''-m64'']" 0 _ init,
      OF _ _ _ refl]
  obtain g2 where 3: "generate_cc_rules sample_env init = Inr g2"
    and 4: "cfg_link_jobs (config sample_env) = None
               \<or> cfg_link_jobs (config sample_env) = Some 0 \<longrightarrow>
            take 5 (drop (length (rules_buf init) + 26) (rules_buf g2))
              = [''rule link'' @ nl,
                 ''  command = g++ -o ${out} -m64 ${ldflags} ${in} ${extra_ldflags}'' @ nl,
                 ''  description = LINK ${out}'' @ nl,
                 nl,
                 ''rule solink'' @ nl]"
    by (auto simp add: sample_env_simps sample_cc_flags sample_config_def)
  from 2 go have "take 5 (drop (length (rules_buf init) + 26) (rules_buf g1))
              = [''pool link_pool'' @ nl @ ''  depth = ''
                 @ str_int (min 16 (build_jobs_num sample_go_env)) @ nl,
                 ''rule link'' @ nl,
                 ''  command = g++ -o ${out} -m64 ${ldflags} ${in} ${extra_ldflags}'' @ nl,
                 ''  description = LINK ${out}'' @ nl,
                 ''  pool = link_pool'' @ nl]"
    by blast
  moreover from 4 plain have "take 5 (drop (length (rules_buf init) + 26) (rules_buf g2))
              = [''rule link'' @ nl,
                 ''  command = g++ -o ${out} -m64 ${ldflags} ${in} ${extra_ldflags}'' @ nl,
                 ''  description = LINK ${out}'' @ nl,
                 nl,
                 ''rule solink'' @ nl]"
    by blast
  ultimately show ?thesis
    by (simp add: 1 3 init_simps sample_go_env_simps str_int_8)
qed

section \<open>The output directory of the Go protobuf rule\<close>

text \<open>
  Claim C2, as amended. With a Go protobuf plugin and the Go home configured,
  \<^const>\<open>generate_proto_rules\<close> returns a state whose last four entries are the \<^verbatim>\<open>protogo\<close> rule,
  and the directory of its \<^verbatim>\<open>--go_out\<close> argument is the configured \<^verbatim>\<open>protobuf_go_path\<close> exactly
  when Go module mode is enabled and \<^verbatim>\<open>go_module_relpath\<close> is not set; when
  \<^verbatim>\<open>go_module_relpath\<close> is set, or module mode is off, it is \<^verbatim>\<open>os.path.join(go_home, 'src')\<close>.
\<close>

theorem C2_protogo_output_directory:
  assumes "pc = section_proto_library_config (config env)"
    and "gc = section_go_config (config env)"
    and "truthy (cfg_protoc_go_plugin pc)"
    and "truthy (cfg_go_home gc)"
    and "outdir = (if cfg_go_module_enabled gc \<and> \<not> truthy (cfg_go_module_relpath gc)
                   then cfg_protobuf_go_path pc
                   else os_path_join (py_str (cfg_go_home gc)) [''src''])"
  shows "\<exists>g'. generate_proto_rules env g = Inr g'
      \<and> drop (length (rules_buf g) + 17) (rules_buf g')
          = [''rule protogo'' @ nl,
             ''  command = '' @ cfg_protoc pc @ '' --proto_path=. ''
             @ protoc_import_path_option (cfg_protobuf_incs pc)
             @ '' -I=`dirname ${in}` --plugin=protoc-gen-go='' @ py_str (cfg_protoc_go_plugin pc)
             @ '' --go_out=''
             @ (if cfg_protoc_go_subplugins pc \<noteq> []
                then ''plugins='' @ str_join ''+'' (cfg_protoc_go_subplugins pc) @ '':''
                else [])
             @ outdir @ '' ${in}'' @ nl,
             ''  description = '' @ colored env ''PROTOCGOLANG ${in}'' ''dimpurple'' @ nl,
             nl]"
  using assms
  by (simp add: generate_proto_rules_def Let_def rules_buf_generate_rule rules_buf_add_rule
      rule_block_plain)

theorem C2_witness:
  \<open>\<not> isl (generate_proto_rules sample_gomod_env init)
   \<and> rules_buf (projr (generate_proto_rules sample_gomod_env init)) ! 18
     = ''  command = protoc --proto_path=.  -I=`dirname ${in}` --plugin=protoc-gen-go=protoc-gen-go --go_out=pb/go ${in}'' @ nl
   \<and> \<not> isl (generate_proto_rules sample_go_env init)
   \<and> rules_buf (projr (generate_proto_rules sample_go_env init)) ! 18
     = ''  command = protoc --proto_path=.  -I=`dirname ${in}` --plugin=protoc-gen-go=protoc-gen-go --go_out=/go/src ${in}'' @ nl\<close>
proof -
  from C2_protogo_output_directory [OF refl refl _ _ refl, of sample_gomod_env init]
  obtain g1 where 1: "generate_proto_rules sample_gomod_env init = Inr g1"
    and 2: \<open>drop 17 (rules_buf g1) ! 1
     = ''  command = protoc --proto_path=.  -I=`dirname ${in}` --plugin=protoc-gen-go=protoc-gen-go --go_out=pb/go ${in}'' @ nl\<close>
    by (auto simp add: sample_gomod_env_simps init_simps protoc_import_path_option_def)
  from C2_protogo_output_directory [OF refl refl _ _ refl, of sample_go_env init]
  obtain g2 where 3: "generate_proto_rules sample_go_env init = Inr g2"
    and 4: \<open>drop 17 (rules_buf g2) ! 1
     = ''  command = protoc --proto_path=.  -I=`dirname ${in}` --plugin=protoc-gen-go=protoc-gen-go --go_out=/go/src ${in}'' @ nl\<close>
    by (auto simp add: sample_go_env_simps init_simps protoc_import_path_option_def
        go_home_src)
  have len1: "17 + 1 < length (rules_buf g1)" and len2: "17 + 1 < length (rules_buf g2)"
    using C2_protogo_output_directory [OF refl refl _ _ refl, of sample_gomod_env init]
      C2_protogo_output_directory [OF refl refl _ _ refl, of sample_go_env init] 1 3
    by (auto simp add: sample_gomod_env_simps sample_go_env_simps init_simps
        dest!: arg_cong [where f = length])
  show ?thesis
    using 2 4 len1 len2 by (simp add: 1 3)
qed

text \<open>
  Claim C2 as stated fails: a plugin is configured, module mode is enabled, the
  module-relative path is \<^verbatim>\<open>mod\<close> and \<^verbatim>\<open>protobuf_go_path\<close> is \<^verbatim>\<open>pb/go\<close>, and the \<^verbatim>\<open>protogo\<close> rule
  is declared with \<^verbatim>\<open>--go_out=/go/src\<close>, the fallback under the Go home.
\<close>

theorem C2_counterexample:
  \<open>truthy (cfg_protoc_go_plugin (section_proto_library_config (config sample_go_env)))
   \<and> cfg_go_module_enabled (section_go_config (config sample_go_env))
   \<and> cfg_go_module_relpath (section_go_config (config sample_go_env)) = Some ''mod''
   \<and> cfg_protobuf_go_path (section_proto_library_config (config sample_go_env)) = ''pb/go''
   \<and> cfg_go_home (section_go_config (config sample_go_env)) = Some ''/go''
   \<and> generate_proto_rules sample_go_env init
     = Inr \<lparr>rules_buf =
             [''protocflags ='' @ nl @ ''protoccpppluginflags ='' @ nl
              @ ''protocjavapluginflags ='' @ nl @ ''protocpythonpluginflags ='' @ nl @ nl,
              ''rule proto'' @ nl,
              ''  command = protoc --proto_path=.  -I=`dirname ${in}` --cpp_out=b64 ${protocflags} ${protoccpppluginflags} ${in}'' @ nl,
              ''  description = PROTOC ${in}'' @ nl,
              nl,
              ''rule protojava'' @ nl,
              ''  command = protoc --proto_path=.  --java_out=b64/`dirname ${in}` ${protocjavapluginflags} ${in}'' @ nl,
              ''  description = PROTOCJAVA ${in}'' @ nl,
              nl,
              ''rule protopython'' @ nl,
              ''  command = protoc --proto_path=.  -I=`dirname ${in}` --python_out=b64 ${protocpythonpluginflags} ${in}'' @ nl,
              ''  description = PROTOCPYTHON ${in}'' @ nl,
              nl,
              ''rule protodescriptors'' @ nl,
              ''  command = protoc --proto_path=.  -I=`dirname ${first}` --descriptor_set_out=${out} --include_imports --include_source_info ${in}'' @ nl,
              ''  description = PROTODESCRIPTORS ${in}'' @ nl,
              nl,
              ''rule protogo'' @ nl,
              ''  command = protoc --proto_path=.  -I=`dirname ${in}` --plugin=protoc-gen-go=protoc-gen-go --go_out=/go/src ${in}'' @ nl,
              ''  description = PROTOCGOLANG ${in}'' @ nl,
              nl],
           all_rule_names = {''proto'', ''protojava'', ''protopython'', ''protodescriptors'',
                             ''protogo''}\<rparr>\<close>
  by (simp add: generate_proto_rules_def Let_def sample_go_env_simps generate_rule_def
      add_rule_def init_def rule_kwargs_def protoc_import_path_option_def go_home_src
      insert_commute)

section \<open>The two variants of the compile rules\<close>

lemma compile_rule_texts:
  assumes "get_cc_commands env = (cc, cxx, ld)"
    and "get_cc_flags env = Inr (cppflags0, ldflags0)"
    and "pipefail_probe env = Exited status"
    and "cflags = cfg_cflags (section_cc_config (config env))"
    and "cxxflags = cfg_cxxflags (section_cc_config (config env))"
    and "cppflags = cfg_cppflags (section_cc_config (config env)) @ cppflags0"
  shows "(\<exists>g'. generate_cc_rules env g = Inr g'
          \<and> take 2 (drop (length (rules_buf g) + 1) (rules_buf g'))
              = [''rule cc'' @ nl,
                 ''  command = ''
                 @ template (status = 0) (cc_command cc cflags cppflags (cc_includes env)) @ nl]
          \<and> take 2 (drop (length (rules_buf g) + 7) (rules_buf g'))
              = [''rule cxx'' @ nl,
                 ''  command = ''
                 @ template (status = 0) (cxx_command cxx cxxflags cppflags (cc_includes env))
                 @ nl])
     \<and> (\<forall>command.
          template True command
            = ''set -o pipefail && '' @ command @ '' -H 2>&1 | awk '' @ awk_script
              @ '' > ${out}.H''
          \<and> template False command
            = command @ '' -H 2> ${out}.err && awk '' @ awk_script
              @ '' < ${out}.err > ${out}.H && rm -f ${out}.err''
          \<and> template True command \<noteq> template False command)
     \<and> (\<forall>pre line post.
          (\<forall>l \<in> set pre. \<not> prefix sentinel l) \<and> prefix sentinel line \<longrightarrow>
          awk_run False (pre @ line # post)
            = (filter (\<lambda>l. only_dots (awk_field1 l)) pre,
               filter (\<lambda>l. \<not> only_dots (awk_field1 l)) pre))"
proof -
  from generate_cc_rules_compile_rules [OF assms(1-3), of g]
  obtain g' where ok: "generate_cc_rules env g = Inr g'"
    and lines: "take 12 (drop (length (rules_buf g) + 1) (rules_buf g'))
          = [''rule cc'' @ nl,
             ''  command = ''
             @ template (status = 0) (cc_command cc cflags cppflags (cc_includes env)) @ nl,
             ''  description = '' @ colored env ''CC ${in}'' ''dimpurple'' @ nl,
             ''  depfile = ${out}.d'' @ nl,
             ''  deps = gcc'' @ nl,
             nl,
             ''rule cxx'' @ nl,
             ''  command = ''
             @ template (status = 0) (cxx_command cxx cxxflags cppflags (cc_includes env)) @ nl,
             ''  description = '' @ colored env ''CXX ${in}'' ''dimpurple'' @ nl,
             ''  depfile = ${out}.d'' @ nl,
             ''  deps = gcc'' @ nl,
             nl]"
    unfolding assms(4-6) by blast
  have "take 2 (take 12 (drop (length (rules_buf g) + 1) (rules_buf g')))
      = [''rule cc'' @ nl,
         ''  command = ''
         @ template (status = 0) (cc_command cc cflags cppflags (cc_includes env)) @ nl]"
    unfolding lines by simp
  then have cc_rule: "take 2 (drop (length (rules_buf g) + 1) (rules_buf g'))
      = [''rule cc'' @ nl,
         ''  command = ''
         @ template (status = 0) (cc_command cc cflags cppflags (cc_includes env)) @ nl]"
    by simp
  have "take 2 (drop 6 (take 12 (drop (length (rules_buf g) + 1) (rules_buf g'))))
      = [''rule cxx'' @ nl,
         ''  command = ''
         @ template (status = 0) (cxx_command cxx cxxflags cppflags (cc_includes env)) @ nl]"
    unfolding lines by simp
  then have cxx_rule: "take 2 (drop (length (rules_buf g) + 7) (rules_buf g'))
      = [''rule cxx'' @ nl,
         ''  command = ''
         @ template (status = 0) (cxx_command cxx cxxflags cppflags (cc_includes env)) @ nl]"
    by (simp add: drop_take add.commute add.left_commute)
  have templates: "\<forall>command.
          template True command
            = ''set -o pipefail && '' @ command @ '' -H 2>&1 | awk '' @ awk_script
              @ '' > ${out}.H''
          \<and> template False command
            = command @ '' -H 2> ${out}.err && awk '' @ awk_script
              @ '' < ${out}.err > ${out}.H && rm -f ${out}.err''
          \<and> template True command \<noteq> template False command"
    using template_differs by (simp add: template_def)
  have awk: "\<forall>pre line post.
          (\<forall>l \<in> set pre. \<not> prefix sentinel l) \<and> prefix sentinel line \<longrightarrow>
          awk_run False (pre @ line # post)
            = (filter (\<lambda>l. only_dots (awk_field1 l)) pre,
               filter (\<lambda>l. \<not> only_dots (awk_field1 l)) pre)"
    using awk_run_before_sentinel by blast
  show ?thesis
    using ok cc_rule cxx_rule templates awk by blast
qed

lemma render_template_sh: "render (template_sh pipefail command) = template pipefail command"
  by (simp add: template_sh_def template_def)

lemma exec_pipefail_variant:
  "exec r (template_sh True command) [] sh_start
     = (case awk_run False (compile_stderr r) of (out, err) \<Rightarrow>
          Some (compile_status r, [],
                \<lparr>sh_files = [''${out}.H'' \<mapsto> out], sh_pipefail = True, sh_shown = err\<rparr>))"
  by (simp add: template_sh_def sh_start_def split: prod.splits)

lemma exec_tempfile_variant:
  "exec r (template_sh False command) [] sh_start
     = (if compile_status r = 0
        then (case awk_run False (compile_stderr r) of (out, err) \<Rightarrow>
                Some (0, [],
                      \<lparr>sh_files = [''${out}.H'' \<mapsto> out], sh_pipefail = False, sh_shown = err\<rparr>))
        else Some (compile_status r, [],
                   \<lparr>sh_files = [''${out}.err'' \<mapsto> compile_stderr r], sh_pipefail = False,
                      sh_shown = []\<rparr>))"
  by (auto simp add: template_sh_def sh_start_def fun_eq_iff split: prod.splits)

text \<open>
  Claim C3, as amended. The probe's exit status selects the template of the \<^verbatim>\<open>cc\<close> and \<^verbatim>\<open>cxx\<close>
  rules once: status 0 gives the \<^verbatim>\<open>set -o pipefail\<close> pipeline, any other status the variant
  with the temporary file \<^verbatim>\<open>${out}.err\<close> and its removal; the two texts differ for every
  command, and they are the texts of the commands \<^const>\<open>template_sh\<close>. On a stream whose first
  line starting with the sentinel comes after the lines \<open>pre\<close>, the awk program prints exactly
  those lines of \<open>pre\<close> whose first blank-separated field consists of dots only (the test
  \<^verbatim>\<open>$1 ~ /^\.+$/\<close>), in order; the other lines of \<open>pre\<close> go to \<^verbatim>\<open>/dev/stderr\<close>, and the sentinel
  line and everything after it go nowhere. When the compiler writes such a stream, the
  pipefail variant leaves the side file \<^verbatim>\<open>${out}.H\<close> with exactly those lines, shows the other
  lines of \<open>pre\<close> and exits with the compiler's status; the variant with the temporary
  file does the same when the compiler exits with status 0, and then \<^verbatim>\<open>${out}.err\<close> is gone.
\<close>

theorem C3_compile_rule_variants:
  assumes "get_cc_commands env = (cc, cxx, ld)"
    and "get_cc_flags env = Inr (cppflags0, ldflags0)"
    and "pipefail_probe env = Exited status"
    and "cflags = cfg_cflags (section_cc_config (config env))"
    and "cxxflags = cfg_cxxflags (section_cc_config (config env))"
    and "cppflags = cfg_cppflags (section_cc_config (config env)) @ cppflags0"
  shows "(\<exists>g'. generate_cc_rules env g = Inr g'
          \<and> take 2 (drop (length (rules_buf g) + 1) (rules_buf g'))
              = [''rule cc'' @ nl,
                 ''  command = ''
                 @ template (status = 0) (cc_command cc cflags cppflags (cc_includes env)) @ nl]
          \<and> take 2 (drop (length (rules_buf g) + 7) (rules_buf g'))
              = [''rule cxx'' @ nl,
                 ''  command = ''
                 @ template (status = 0) (cxx_command cxx cxxflags cppflags (cc_includes env))
                 @ nl])
     \<and> (\<forall>command.
          template True command
            = ''set -o pipefail && '' @ command @ '' -H 2>&1 | awk '' @ awk_script
              @ '' > ${out}.H''
          \<and> template False command
            = command @ '' -H 2> ${out}.err && awk '' @ awk_script
              @ '' < ${out}.err > ${out}.H && rm -f ${out}.err''
          \<and> template True command \<noteq> template False command)
     \<and> (\<forall>pre line post.
          (\<forall>l \<in> set pre. \<not> prefix sentinel l) \<and> prefix sentinel line \<longrightarrow>
          awk_run False (pre @ line # post)
            = (filter (\<lambda>l. only_dots (awk_field1 l)) pre,
               filter (\<lambda>l. \<not> only_dots (awk_field1 l)) pre))
     \<and> (\<forall>command. render (template_sh True command) = template True command
                   \<and> render (template_sh False command) = template False command)
     \<and> (\<forall>r command pre line post.
          (\<forall>l \<in> set pre. \<not> prefix sentinel l) \<and> prefix sentinel line
          \<and> compile_stderr r = pre @ line # post \<longrightarrow>
          exec r (template_sh True command) [] sh_start
            = Some (compile_status r, [],
                    \<lparr>sh_files = [''${out}.H'' \<mapsto> filter (\<lambda>l. only_dots (awk_field1 l)) pre],
                       sh_pipefail = True,
                       sh_shown = filter (\<lambda>l. \<not> only_dots (awk_field1 l)) pre\<rparr>)
          \<and> (compile_status r = 0 \<longrightarrow>
               exec r (template_sh False command) [] sh_start
                 = Some (0, [],
                         \<lparr>sh_files = [''${out}.H'' \<mapsto> filter (\<lambda>l. only_dots (awk_field1 l)) pre],
                            sh_pipefail = False,
                            sh_shown = filter (\<lambda>l. \<not> only_dots (awk_field1 l)) pre\<rparr>)))"
proof -
  note texts = compile_rule_texts [OF assms, of g]
  have renders: "\<forall>command. render (template_sh True command) = template True command
                   \<and> render (template_sh False command) = template False command"
    by (simp add: render_template_sh)
  have runs: "\<forall>r command pre line post.
          (\<forall>l \<in> set pre. \<not> prefix sentinel l) \<and> prefix sentinel line
          \<and> compile_stderr r = pre @ line # post \<longrightarrow>
          exec r (template_sh True command) [] sh_start
            = Some (compile_status r, [],
                    \<lparr>sh_files = [''${out}.H'' \<mapsto> filter (\<lambda>l. only_dots (awk_field1 l)) pre],
                       sh_pipefail = True,
                       sh_shown = filter (\<lambda>l. \<not> only_dots (awk_field1 l)) pre\<rparr>)
          \<and> (compile_status r = 0 \<longrightarrow>
               exec r (template_sh False command) [] sh_start
                 = Some (0, [],
                         \<lparr>sh_files = [''${out}.H'' \<mapsto> filter (\<lambda>l. only_dots (awk_field1 l)) pre],
                            sh_pipefail = False,
                            sh_shown = filter (\<lambda>l. \<not> only_dots (awk_field1 l)) pre\<rparr>))"
    by (simp add: exec_pipefail_variant exec_tempfile_variant awk_run_before_sentinel)
  show ?thesis
    by (intro conjI texts [THEN conjunct1] texts [THEN conjunct2, THEN conjunct1]
        texts [THEN conjunct2, THEN conjunct2] renders runs)
qed

theorem C3_witness:
  "\<not> isl (generate_cc_rules sample_env init)
   \<and> take 2 (drop 1 (rules_buf (projr (generate_cc_rules sample_env init))))
       = [''rule cc'' @ nl,
         ''  command = ''
         @ template True
             (cc_command ''gcc'' []
                [''-m64'', ''-pipe'', ''-fno-omit-frame-pointer'', ''-g'', ''-DNDEBUG'',
                 ''-D_FILE_OFFSET_BITS=64'', ''-D__STDC_CONSTANT_MACROS'',
                 ''-D__STDC_FORMAT_MACROS'', ''-D__STDC_LIMIT_MACROS'']
                ''-I. -Ib64'')
         @ nl]
   \<and> \<not> isl (generate_cc_rules sample_dash_env init)
   \<and> take 2 (drop 1 (rules_buf (projr (generate_cc_rules sample_dash_env init))))
       = [''rule cc'' @ nl,
         ''  command = ''
         @ template False
             (cc_command ''gcc'' []
                [''-m64'', ''-pipe'', ''-fno-omit-frame-pointer'', ''-g'', ''-DNDEBUG'',
                 ''-D_FILE_OFFSET_BITS=64'', ''-D__STDC_CONSTANT_MACROS'',
                 ''-D__STDC_FORMAT_MACROS'', ''-D__STDC_LIMIT_MACROS'']
                ''-I. -Ib64'')
         @ nl]
   \<and> awk_run False [''. a.h'', ''x.c:1:2: warning: w'', ''.. b.h'', sentinel, ''. c.h'']
       = ([''. a.h'', ''.. b.h''], [''x.c:1:2: warning: w''])
   \<and> exec \<lparr>compile_status = 1,
              compile_stderr = [''. a.h'', ''x.c:1:2: warning: w'', ''.. b.h'', sentinel,
                                ''. c.h'']\<rparr>
         (template_sh True ''gcc -c x.c'') [] sh_start
       = Some (1, [],
               \<lparr>sh_files = [''${out}.H'' \<mapsto> [''. a.h'', ''.. b.h'']], sh_pipefail = True,
                  sh_shown = [''x.c:1:2: warning: w'']\<rparr>)
   \<and> exec \<lparr>compile_status = 0,
              compile_stderr = [''. a.h'', ''x.c:1:2: warning: w'', ''.. b.h'', sentinel,
                                ''. c.h'']\<rparr>
         (template_sh False ''gcc -c x.c'') [] sh_start
       = Some (0, [],
               \<lparr>sh_files = [''${out}.H'' \<mapsto> [''. a.h'', ''.. b.h'']], sh_pipefail = False,
                  sh_shown = [''x.c:1:2: warning: w'']\<rparr>)"
proof -
  let ?cpp = "[''-m64'', ''-pipe'', ''-fno-omit-frame-pointer'', ''-g'', ''-DNDEBUG'',
                 ''-D_FILE_OFFSET_BITS=64'', ''-D__STDC_CONSTANT_MACROS'',
                 ''-D__STDC_FORMAT_MACROS'', ''-D__STDC_LIMIT_MACROS'']"
  have flags: "get_cc_flags sample_env = Inr (?cpp, [''-m64''])"
    by (simp add: sample_cc_flags)
  have flags': "get_cc_flags sample_dash_env = Inr (?cpp, [''-m64''])"
    by (simp add: sample_cc_flags sample_probe_env_simps)
  have cmds: "get_cc_commands sample_env = (''gcc'', ''g++'', ''g++'')"
    and probe: "pipefail_probe sample_env = Exited 0"
    and cmds': "get_cc_commands sample_dash_env = (''gcc'', ''g++'', ''g++'')"
    and probe': "pipefail_probe sample_dash_env = Exited 2"
    by (simp_all add: sample_env_simps sample_probe_env_simps)
  have cf: "[] = cfg_cflags (section_cc_config (config sample_env))"
    and cxf: "[''-std=c++11''] = cfg_cxxflags (section_cc_config (config sample_env))"
    and cpf: "?cpp = cfg_cppflags (section_cc_config (config sample_env)) @ ?cpp"
    and cf': "[] = cfg_cflags (section_cc_config (config sample_dash_env))"
    and cxf': "[''-std=c++11''] = cfg_cxxflags (section_cc_config (config sample_dash_env))"
    and cpf': "?cpp = cfg_cppflags (section_cc_config (config sample_dash_env)) @ ?cpp"
    by (simp_all add: sample_env_simps sample_probe_env_simps sample_config_def)
  note a = C3_compile_rule_variants [OF cmds flags probe cf cxf cpf, of init]
  note b = C3_compile_rule_variants [OF cmds' flags' probe' cf' cxf' cpf', of init]
  from a [THEN conjunct1] obtain g1 where 1: "generate_cc_rules sample_env init = Inr g1"
    and 2: "take 2 (drop (length (rules_buf init) + 1) (rules_buf g1))
              = [''rule cc'' @ nl,
                 ''  command = ''
                 @ template (0 = (0::int)) (cc_command ''gcc'' [] ?cpp (cc_includes sample_env))
                 @ nl]"
    by blast
  from b [THEN conjunct1] obtain g2 where 3: "generate_cc_rules sample_dash_env init = Inr g2"
    and 4: "take 2 (drop (length (rules_buf init) + 1) (rules_buf g2))
              = [''rule cc'' @ nl,
                 ''  command = ''
                 @ template (2 = (0::int)) (cc_command ''gcc'' [] ?cpp (cc_includes sample_dash_env))
                 @ nl]"
    by blast
  from 2 have 5: "take 2 (drop 1 (rules_buf g1))
              = [''rule cc'' @ nl,
                 ''  command = ''
                 @ template True (cc_command ''gcc'' [] ?cpp ''-I. -Ib64'') @ nl]"
    by (simp add: init_simps sample_includes)
  from 4 have 6: "take 2 (drop 1 (rules_buf g2))
              = [''rule cc'' @ nl,
                 ''  command = ''
                 @ template False (cc_command ''gcc'' [] ?cpp ''-I. -Ib64'') @ nl]"
    by (simp add: init_simps sample_includes)
  have pre: "(\<forall>l \<in> set [''. a.h'', ''x.c:1:2: warning: w'', ''.. b.h'']. \<not> prefix sentinel l)
             \<and> prefix sentinel sentinel"
    by (simp add: sentinel_def)
  from a [THEN conjunct2, THEN conjunct2, THEN conjunct1] have "\<forall>pre line post.
          (\<forall>l \<in> set pre. \<not> prefix sentinel l) \<and> prefix sentinel line \<longrightarrow>
          awk_run False (pre @ line # post)
            = (filter (\<lambda>l. only_dots (awk_field1 l)) pre,
               filter (\<lambda>l. \<not> only_dots (awk_field1 l)) pre)" .
  with pre have "awk_run False
        ([''. a.h'', ''x.c:1:2: warning: w'', ''.. b.h''] @ sentinel # [''. c.h''])
      = (filter (\<lambda>l. only_dots (awk_field1 l)) [''. a.h'', ''x.c:1:2: warning: w'', ''.. b.h''],
         filter (\<lambda>l. \<not> only_dots (awk_field1 l))
           [''. a.h'', ''x.c:1:2: warning: w'', ''.. b.h''])"
    by blast
  then have 7: "awk_run False
        [''. a.h'', ''x.c:1:2: warning: w'', ''.. b.h'', sentinel, ''. c.h'']
       = ([''. a.h'', ''.. b.h''], [''x.c:1:2: warning: w''])"
    by (simp add: awk_sample_fields)
  let ?pre = "[''. a.h'', ''x.c:1:2: warning: w'', ''.. b.h'']"
  let ?fail = "\<lparr>compile_status = 1, compile_stderr = ?pre @ sentinel # [''. c.h'']\<rparr>"
  let ?pass = "\<lparr>compile_status = 0, compile_stderr = ?pre @ sentinel # [''. c.h'']\<rparr>"
  note runs = a [THEN conjunct2, THEN conjunct2, THEN conjunct2, THEN conjunct2]
  have "(\<forall>l \<in> set ?pre. \<not> prefix sentinel l) \<and> prefix sentinel sentinel
        \<and> compile_stderr ?fail = ?pre @ sentinel # [''. c.h'']"
    using pre by simp
  with runs [THEN spec, of ?fail, THEN spec, of "''gcc -c x.c''", THEN spec, of ?pre,
      THEN spec, of sentinel, THEN spec, of "[''. c.h'']"]
  have 8: "exec ?fail (template_sh True ''gcc -c x.c'') [] sh_start
       = Some (1, [],
               \<lparr>sh_files = [''${out}.H'' \<mapsto> [''. a.h'', ''.. b.h'']], sh_pipefail = True,
                  sh_shown = [''x.c:1:2: warning: w'']\<rparr>)"
    by (simp add: awk_sample_fields)
  have "(\<forall>l \<in> set ?pre. \<not> prefix sentinel l) \<and> prefix sentinel sentinel
        \<and> compile_stderr ?pass = ?pre @ sentinel # [''. c.h'']"
    using pre by simp
  with runs [THEN spec, of ?pass, THEN spec, of "''gcc -c x.c''", THEN spec, of ?pre,
      THEN spec, of sentinel, THEN spec, of "[''. c.h'']"]
  have 9: "exec ?pass (template_sh False ''gcc -c x.c'') [] sh_start
       = Some (0, [],
               \<lparr>sh_files = [''${out}.H'' \<mapsto> [''. a.h'', ''.. b.h'']], sh_pipefail = False,
                  sh_shown = [''x.c:1:2: warning: w'']\<rparr>)"
    by (simp add: awk_sample_fields)
  from 8 9 have 10: "exec \<lparr>compile_status = 1,
              compile_stderr = [''. a.h'', ''x.c:1:2: warning: w'', ''.. b.h'', sentinel,
                                ''. c.h'']\<rparr>
         (template_sh True ''gcc -c x.c'') [] sh_start
       = Some (1, [],
               \<lparr>sh_files = [''${out}.H'' \<mapsto> [''. a.h'', ''.. b.h'']], sh_pipefail = True,
                  sh_shown = [''x.c:1:2: warning: w'']\<rparr>)
   \<and> exec \<lparr>compile_status = 0,
              compile_stderr = [''. a.h'', ''x.c:1:2: warning: w'', ''.. b.h'', sentinel,
                                ''. c.h'']\<rparr>
         (template_sh False ''gcc -c x.c'') [] sh_start
       = Some (0, [],
               \<lparr>sh_files = [''${out}.H'' \<mapsto> [''. a.h'', ''.. b.h'']], sh_pipefail = False,
                  sh_shown = [''x.c:1:2: warning: w'']\<rparr>)"
    by simp
  have 11: "\<not> isl (generate_cc_rules sample_env init)
     \<and> take 2 (drop 1 (rules_buf (projr (generate_cc_rules sample_env init))))
       = [''rule cc'' @ nl,
          ''  command = '' @ template True (cc_command ''gcc'' [] ?cpp ''-I. -Ib64'') @ nl]
     \<and> \<not> isl (generate_cc_rules sample_dash_env init)
     \<and> take 2 (drop 1 (rules_buf (projr (generate_cc_rules sample_dash_env init))))
       = [''rule cc'' @ nl,
          ''  command = '' @ template False (cc_command ''gcc'' [] ?cpp ''-I. -Ib64'') @ nl]"
    using 5 6 by (simp add: 1 3)
  show ?thesis
    by (intro conjI 11 [THEN conjunct1] 11 [THEN conjunct2, THEN conjunct1]
        11 [THEN conjunct2, THEN conjunct2, THEN conjunct1]
        11 [THEN conjunct2, THEN conjunct2, THEN conjunct2] 7
        10 [THEN conjunct1] 10 [THEN conjunct2])
qed

text \<open>
  Claim C3 as stated fails. By design: the diagnostic \<^verbatim>\<open>../a.h:1:1: warning: w\<close> stands before
  the sentinel and starts with dots, and it is not in the side file of either variant,
  because its first field is not made of dots only. And on a compile that exits with
  status 1 the variant with the temporary file stops after the compiler: it writes no side
  file at all.
\<close>

theorem C3_counterexample:
  "hd ''../a.h:1:1: warning: w'' = CHR ''.''
   \<and> \<not> prefix sentinel ''../a.h:1:1: warning: w''
   \<and> awk_run False [''../a.h:1:1: warning: w'', ''. a.h'', sentinel, ''. c.h'']
       = ([''. a.h''], [''../a.h:1:1: warning: w''])
   \<and> exec \<lparr>compile_status = 0,
              compile_stderr = [''../a.h:1:1: warning: w'', ''. a.h'', sentinel, ''. c.h'']\<rparr>
         (template_sh True ''gcc -c x.c'') [] sh_start
       = Some (0, [],
               \<lparr>sh_files = [''${out}.H'' \<mapsto> [''. a.h'']], sh_pipefail = True,
                  sh_shown = [''../a.h:1:1: warning: w'']\<rparr>)
   \<and> exec \<lparr>compile_status = 1,
              compile_stderr = [''x.c:1:1: error: e'', ''. a.h'', sentinel, ''. c.h'']\<rparr>
         (template_sh False ''gcc -c x.c'') [] sh_start
       = Some (1, [],
               \<lparr>sh_files = [''${out}.err''
                              \<mapsto> [''x.c:1:1: error: e'', ''. a.h'', sentinel, ''. c.h'']],
                  sh_pipefail = False, sh_shown = []\<rparr>)"
  by (simp add: awk_sample_fields sentinel_def exec_pipefail_variant exec_tempfile_variant)

text \<open>
  What the variant with the temporary file does when the compiler fails, which the claim as
  amended leaves open: the \<^verbatim>\<open>&&\<close> chain ends after the compiler, so no \<^verbatim>\<open>${out}.H\<close> is written,
  none of the diagnostics is shown, and \<^verbatim>\<open>${out}.err\<close> stays. The pipefail variant, for which
  this one is the stand-in, writes the side file and shows the diagnostics on such a
  compile.
\<close>

lemma tempfile_variant_failing_compile:
  "compile_status r \<noteq> 0 \<Longrightarrow>
   exec r (template_sh False command) [] sh_start
     = Some (compile_status r, [],
             \<lparr>sh_files = [''${out}.err'' \<mapsto> compile_stderr r], sh_pipefail = False,
                sh_shown = []\<rparr>)"
  by (simp add: exec_tempfile_variant)

section \<open>The header-inclusion command and the compile rules\<close>




section \<open>The shell probe\<close>

text \<open>
  Claim C8, as amended. When the probe runs and exits with a status other than 0, the
  capability is absent: \<^const>\<open>shell_support_pipefail\<close> returns \<^verbatim>\<open>False\<close>, the compile rules get the
  template with the temporary file, and \<^const>\<open>generate_cc_rules\<close> returns a state. When the
  probe cannot be started, \<^verbatim>\<open>subprocess.call\<close> raises and nothing handles it: the error leaves
  \<^const>\<open>generate_cc_rules\<close> and the pass, and no script is written.
\<close>

theorem C8_probe_outcomes:
  assumes "get_cc_commands env = (cc, cxx, ld)"
    and "get_cc_flags env = Inr (cppflags0, ldflags0)"
    and "cflags = cfg_cflags (section_cc_config (config env))"
    and "cppflags = cfg_cppflags (section_cc_config (config env)) @ cppflags0"
  shows "(\<forall>status. pipefail_probe env = Exited status \<and> status \<noteq> 0 \<longrightarrow>
            shell_support_pipefail (pipefail_probe env) = Inr False
            \<and> (\<exists>g'. generate_cc_rules env g = Inr g'
                 \<and> take 2 (drop (length (rules_buf g) + 1) (rules_buf g'))
                     = [''rule cc'' @ nl,
                        ''  command = ''
                        @ template False (cc_command cc cflags cppflags (cc_includes env))
                        @ nl]))
     \<and> (pipefail_probe env = SpawnFailed \<longrightarrow>
            shell_support_pipefail (pipefail_probe env) = Inl OSError
            \<and> generate_cc_rules env g = Inl OSError
            \<and> generate env g = Inl OSError
            \<and> generate_build_script env = (Inl OSError, None))"
proof -
  have runs: "shell_support_pipefail (pipefail_probe env) = Inr False
            \<and> (\<exists>g'. generate_cc_rules env g = Inr g'
                 \<and> take 2 (drop (length (rules_buf g) + 1) (rules_buf g'))
                     = [''rule cc'' @ nl,
                        ''  command = ''
                        @ template False (cc_command cc cflags cppflags (cc_includes env))
                        @ nl])"
    if probe: "pipefail_probe env = Exited status" and status: "status \<noteq> 0" for status
  proof -
    from generate_cc_rules_compile_rules [OF assms(1,2) probe, of g]
    obtain g' where ok: "generate_cc_rules env g = Inr g'"
      and lines: "take 12 (drop (length (rules_buf g) + 1) (rules_buf g'))
          = [''rule cc'' @ nl,
             ''  command = ''
             @ template (status = 0) (cc_command cc cflags cppflags (cc_includes env)) @ nl,
             ''  description = '' @ colored env ''CC ${in}'' ''dimpurple'' @ nl,
             ''  depfile = ${out}.d'' @ nl,
             ''  deps = gcc'' @ nl,
             nl,
             ''rule cxx'' @ nl,
             ''  command = ''
             @ template (status = 0)
                 (cxx_command cxx (cfg_cxxflags (section_cc_config (config env))) cppflags
                    (cc_includes env))
             @ nl,
             ''  description = '' @ colored env ''CXX ${in}'' ''dimpurple'' @ nl,
             ''  depfile = ${out}.d'' @ nl,
             ''  deps = gcc'' @ nl,
             nl]"
      unfolding assms(3,4) by blast
    have "take 2 (take 12 (drop (length (rules_buf g) + 1) (rules_buf g')))
        = [''rule cc'' @ nl,
           ''  command = ''
           @ template False (cc_command cc cflags cppflags (cc_includes env)) @ nl]"
      unfolding lines using status by simp
    then have "take 2 (drop (length (rules_buf g) + 1) (rules_buf g'))
        = [''rule cc'' @ nl,
           ''  command = ''
           @ template False (cc_command cc cflags cppflags (cc_includes env)) @ nl]"
      by simp
    with ok probe status show ?thesis
      by (simp add: shell_support_pipefail_def)
  qed
  have spawn: "shell_support_pipefail (pipefail_probe env) = Inl OSError
            \<and> generate_cc_rules env g = Inl OSError
            \<and> generate env g = Inl OSError
            \<and> generate_build_script env = (Inl OSError, None)"
    if probe: "pipefail_probe env = SpawnFailed"
  proof -
    have cc_rules: "generate_cc_rules env h = Inl OSError" for h
      using assms(2) probe by (simp add: generate_cc_rules_Inl)
    have pass: "generate env h = Inl OSError" for h
      by (simp add: generate_Inl cc_rules)
    have "generate_build_script env = (Inl OSError, None)"
      by (simp add: generate_build_script_def generate_build_rules_def pass)
    with cc_rules pass probe show ?thesis
      by (simp add: shell_support_pipefail_def)
  qed
  show ?thesis
    using runs spawn by blast
qed

theorem C8_witness:
  "shell_support_pipefail (pipefail_probe sample_dash_env) = Inr False
   \<and> \<not> isl (generate_cc_rules sample_dash_env init)
   \<and> shell_support_pipefail (pipefail_probe sample_noshell_env) = Inl OSError
   \<and> generate_cc_rules sample_noshell_env init = Inl OSError
   \<and> generate sample_noshell_env init = Inl OSError
   \<and> generate_build_script sample_noshell_env = (Inl OSError, None)"
proof -
  let ?cpp = "[''-m64'', ''-pipe'', ''-fno-omit-frame-pointer'', ''-g'', ''-DNDEBUG'',
                 ''-D_FILE_OFFSET_BITS=64'', ''-D__STDC_CONSTANT_MACROS'',
                 ''-D__STDC_FORMAT_MACROS'', ''-D__STDC_LIMIT_MACROS'']"
  have flags: "get_cc_flags sample_dash_env = Inr (?cpp, [''-m64''])"
    and flags': "get_cc_flags sample_noshell_env = Inr (?cpp, [''-m64''])"
    by (simp_all add: sample_cc_flags sample_probe_env_simps)
  have cmds: "get_cc_commands sample_dash_env = (''gcc'', ''g++'', ''g++'')"
    and cmds': "get_cc_commands sample_noshell_env = (''gcc'', ''g++'', ''g++'')"
    and probe: "pipefail_probe sample_dash_env = Exited 2 \<and> (2::int) \<noteq> 0"
    and probe': "pipefail_probe sample_noshell_env = SpawnFailed"
    by (simp_all add: sample_probe_env_simps)
  from C8_probe_outcomes [OF cmds flags refl refl, of init, THEN conjunct1] probe
  have 1: "shell_support_pipefail (pipefail_probe sample_dash_env) = Inr False
           \<and> (\<exists>g'. generate_cc_rules sample_dash_env init = Inr g')"
    by blast
  from C8_probe_outcomes [OF cmds' flags' refl refl, of init, THEN conjunct2] probe'
  have 2: "shell_support_pipefail (pipefail_probe sample_noshell_env) = Inl OSError
   \<and> generate_cc_rules sample_noshell_env init = Inl OSError
   \<and> generate sample_noshell_env init = Inl OSError
   \<and> generate_build_script sample_noshell_env = (Inl OSError, None)"
    by blast
  from 1 2 show ?thesis
    by auto
qed

text \<open>
  Claim C8 as stated fails: with a probe that cannot be started, the pass ends in the
  \<^verbatim>\<open>OSError\<close> and \<^const>\<open>generate_build_script\<close> writes nothing.
\<close>

theorem C8_counterexample:
  "pipefail_probe sample_noshell_env = SpawnFailed
   \<and> generate sample_noshell_env init = Inl OSError
   \<and> generate_build_script sample_noshell_env = (Inl OSError, None)"
proof -
  have probe: "pipefail_probe sample_noshell_env = SpawnFailed"
    by (simp add: sample_probe_env_simps)
  have "\<not> isl (get_cc_flags sample_noshell_env)"
    by (simp add: sample_cc_flags sample_probe_env_simps)
  with probe have pass: "generate sample_noshell_env init = Inl OSError"
    by (simp add: generate_Inl generate_cc_rules_Inl)
  then show ?thesis
    by (simp add: probe generate_build_script_def generate_build_rules_def)
qed

end
